theory Spec2Isabelle
  imports Main "HOL-Library.Word"
begin

unbundle bit_operations_syntax

section \<open>Wifi HAL: command and event dispatch over netlink\<close>

text \<open>
  A shallow embedding of the Wifi HAL source file: socket set-up, the packet filter and
  ND offload entry points, initialization, the event loop, the dispatch of received
  events to registered handlers, and the RSSI monitor command.
\<close>

subsection \<open>Constants of headers that are not among the sources\<close>

text \<open>
  The source includes \<^verbatim>\<open>wifi_hal.h\<close>, \<^verbatim>\<open>errno.h\<close>, \<^verbatim>\<open>poll.h\<close>, the nl80211 and
  netlink headers and \<^verbatim>\<open>common.h\<close>. The values of their macros and enumerators are
  not fixed by the source, so every definition that uses one takes them from a record
  \<open>K\<close>. C's \<^verbatim>\<open>int\<close> status codes are only compared and negated, never added, and
  are modelled as \<open>int\<close>; \<^verbatim>\<open>uint32_t\<close> is \<open>32 word\<close>, \<^verbatim>\<open>u8\<close> is \<open>8 word\<close>,
  and the \<^verbatim>\<open>short\<close> event masks of \<^verbatim>\<open>pollfd\<close> are \<open>16 word\<close>.
\<close>

type_synonym u8 = "8 word"
type_synonym u32 = "32 word"

record hdr_consts =
  WIFI_SUCCESS :: int
  WIFI_ERROR_UNKNOWN :: int
  WIFI_ERROR_NOT_AVAILABLE :: int
  WIFI_ERROR_OUT_OF_MEMORY :: int
  EPERM :: int
  NL80211_CMD_VENDOR :: int
  POLLIN :: "16 word"
  POLLERR :: "16 word"
  POLLHUP :: "16 word"
  GOOGLE_OUI :: u32
  WIFI_RSSI_REPORT_EVENT :: u32
  SLSI_NL80211_VENDOR_SUBCMD_SET_RSSI_MONITOR :: u32
  SLSI_NL80211_VENDOR_SUBCMD_CONFIGURE_ND_OFFLOAD :: u32
  SLSI_NL80211_VENDOR_SUBCMD_APF_SET_FILTER :: u32
  SLSI_NL80211_VENDOR_SUBCMD_APF_GET_CAPABILITIES :: u32
  SLSI_NL80211_VENDOR_SUBCMD_APF_READ_FILTER :: u32
  WIFI_HAL_ATTR_START :: int

text \<open>
  One assignment of these names, used only to evaluate the definitions at concrete
  inputs: the values of Linux and of the Android Wifi HAL header for the error codes,
  the poll flags, the nl80211 vendor command and the Google OUI, and arbitrary distinct
  numbers for the driver's vendor subcommands, its RSSI event and the first attribute id.
\<close>

definition sample_consts :: hdr_consts where
  "sample_consts =
     \<lparr> WIFI_SUCCESS = 0, WIFI_ERROR_UNKNOWN = - 1, WIFI_ERROR_NOT_AVAILABLE = - 4,
       WIFI_ERROR_OUT_OF_MEMORY = - 9, EPERM = 1, NL80211_CMD_VENDOR = 103,
       POLLIN = 1, POLLERR = 8, POLLHUP = 16,
       GOOGLE_OUI = 0x001A11, WIFI_RSSI_REPORT_EVENT = 3,
       SLSI_NL80211_VENDOR_SUBCMD_SET_RSSI_MONITOR = 20,
       SLSI_NL80211_VENDOR_SUBCMD_CONFIGURE_ND_OFFLOAD = 21,
       SLSI_NL80211_VENDOR_SUBCMD_APF_SET_FILTER = 22,
       SLSI_NL80211_VENDOR_SUBCMD_APF_GET_CAPABILITIES = 23,
       SLSI_NL80211_VENDOR_SUBCMD_APF_READ_FILTER = 24,
       WIFI_HAL_ATTR_START = 1 \<rparr>"

text \<open>\<^verbatim>\<open>enum nl_cb_action\<close> of libnl, the return value of a message callback.\<close>

datatype nl_cb_action = NL_OK | NL_SKIP | NL_STOP

subsection \<open>Local ports of the two sockets\<close>

definition WIFI_HAL_CMD_SOCK_PORT :: u32 where
  "WIFI_HAL_CMD_SOCK_PORT = 644"

definition WIFI_HAL_EVENT_SOCK_PORT :: u32 where
  "WIFI_HAL_EVENT_SOCK_PORT = 645"

text \<open>
  \<^verbatim>\<open>wifi_socket_set_local_port\<close>: the first argument is the value of \<^verbatim>\<open>getpid()\<close>,
  the result is the port handed to \<^verbatim>\<open>nl_socket_set_local_port\<close>. The arithmetic is
  that of \<^verbatim>\<open>uint32_t\<close>: \<open>+\<close> and \<open>push_bit\<close> wrap at 32 bits.
\<close>

definition wifi_socket_set_local_port :: "u32 \<Rightarrow> u32 \<Rightarrow> u32" where
  "wifi_socket_set_local_port getpid port =
     (let pid = getpid AND 0x3FFFFF in pid + push_bit 22 port)"

subsection \<open>Requests, replies and the transport\<close>

text \<open>
  A request as \<^verbatim>\<open>WifiRequest\<close> builds it: the vendor id and subcommand given to
  \<^verbatim>\<open>create\<close> and the attributes put between \<^verbatim>\<open>attr_start\<close> and \<^verbatim>\<open>attr_end\<close>.
\<close>

datatype attr_val = U8 u8 | U32 u32 | Bytes "u8 list"

record request =
  req_vendor_id :: u32
  req_subcmd :: u32
  req_attrs :: "(int \<times> attr_val) list"

text \<open>
  A received message as \<^verbatim>\<open>WifiEvent\<close> presents it. Each field is what the method of
  that name returns: \<open>parse_res\<close> for \<^verbatim>\<open>parse()\<close>, \<open>get_vendor_id\<close> and
  \<open>get_vendor_subcmd\<close> for the \<^verbatim>\<open>u32\<close> attributes \<^verbatim>\<open>NL80211_ATTR_VENDOR_ID\<close> and
  \<^verbatim>\<open>NL80211_ATTR_VENDOR_SUBCMD\<close>, \<open>vendor_data\<close> for the attribute
  \<^verbatim>\<open>NL80211_ATTR_VENDOR_DATA\<close> (\<open>None\<close> is \<^verbatim>\<open>NULL\<close>) as the sequence that
  \<^verbatim>\<open>nl_iterator\<close> walks, each element with its \<^verbatim>\<open>get_type()\<close> and \<^verbatim>\<open>get_u32()\<close>.
\<close>

record nlattr =
  nla_type :: int
  nla_get_u32 :: u32

record wifi_event =
  parse_res :: int
  get_cmd :: int
  get_vendor_id :: u32
  get_vendor_subcmd :: u32
  vendor_data :: "nlattr list option"
  get_vendor_data_len :: int
  get_vendor_data :: "u8 list"

text \<open>
  What the library and the kernel answer to the calls made for one request: the results
  of \<^verbatim>\<open>new\<close>, of \<^verbatim>\<open>create\<close>, of the \<open>i\<close>-th \<^verbatim>\<open>put\<close> call, of the exchange on the
  command socket, and the reply the exchange hands to \<^verbatim>\<open>handleResponse\<close>, if any.
\<close>

record request_env =
  new_ok :: bool
  create_res :: int
  put_res :: "nat \<Rightarrow> int"
  rr_res :: int
  rr_reply :: "wifi_event option"

text \<open>
  Modelled from the spec: \<^verbatim>\<open>WifiCommand::requestResponse(WifiRequest&)\<close>, declared in
  \<^verbatim>\<open>cpp_bindings.h\<close>, which is not among the sources. The spec's \<^verbatim>\<open>send_and_wait\<close>
  "sends, then blocks on the command socket until a reply envelope arrives", and a
  failure "surfaces as a typed transport error". The second component of the result is
  the reply to hand to the command's \<^verbatim>\<open>handleResponse\<close>, the third the requests sent on
  the command socket so far.
\<close>

definition requestResponse ::
  "request_env \<Rightarrow> request \<Rightarrow> request list \<Rightarrow> int \<times> wifi_event option \<times> request list" where
  "requestResponse env req sent = (rr_res env, rr_reply env, sent @ [req])"

subsection \<open>The packet filter command\<close>

datatype apf_request_type = GET_APF_CAPABILITIES | SET_APF_PROGRAM | READ_APF_PROGRAM

definition APF_ATTRIBUTE_VERSION :: int where "APF_ATTRIBUTE_VERSION = 0"
definition APF_ATTRIBUTE_MAX_LEN :: int where "APF_ATTRIBUTE_MAX_LEN = 1"
definition APF_ATTRIBUTE_PROGRAM :: int where "APF_ATTRIBUTE_PROGRAM = 2"
definition APF_ATTRIBUTE_PROGRAM_LEN :: int where "APF_ATTRIBUTE_PROGRAM_LEN = 3"

text \<open>
  The fields of \<^verbatim>\<open>AndroidPktFilterCommand\<close>. \<open>mVersion\<close> and \<open>mMaxLen\<close> hold the
  values of the caller's variables that the two pointers refer to, \<open>mProgram\<close> and
  \<open>mHostDestination\<close> the bytes of the caller's buffers.
\<close>

record AndroidPktFilterCommand =
  mProgram :: "u8 list"
  mProgramLen :: u32
  mVersion :: u32
  mMaxLen :: u32
  mSourceOffset :: u32
  mHostDestination :: "u8 list"
  mLength :: u32
  mReqType :: apf_request_type

text \<open>The constructor for \<^verbatim>\<open>GET_APF_CAPABILITIES\<close>, on the current values behind the pointers.\<close>

definition apf_get_capabilities_cmd :: "u32 \<Rightarrow> u32 \<Rightarrow> AndroidPktFilterCommand" where
  "apf_get_capabilities_cmd version max_len =
     \<lparr> mProgram = [], mProgramLen = 0, mVersion = version, mMaxLen = max_len,
       mSourceOffset = 0, mHostDestination = [], mLength = 0,
       mReqType = GET_APF_CAPABILITIES \<rparr>"

text \<open>
  \<^verbatim>\<open>createSetPktFilterRequest\<close>. \<^verbatim>\<open>memcpy\<close> reads \<open>mProgramLen\<close> bytes of the caller's
  program; a shorter buffer is a read outside it, which C leaves undefined: \<open>None\<close>.
  The request reaches the transport only when the result is not negative.
\<close>

definition createSetPktFilterRequest ::
  "hdr_consts \<Rightarrow> request_env \<Rightarrow> AndroidPktFilterCommand \<Rightarrow> (int \<times> request) option" where
  "createSetPktFilterRequest K env c =
     (let r0 = \<lparr> req_vendor_id = GOOGLE_OUI K,
                   req_subcmd = SLSI_NL80211_VENDOR_SUBCMD_APF_SET_FILTER K, req_attrs = [] \<rparr>
      in if \<not> new_ok env then Some (WIFI_ERROR_OUT_OF_MEMORY K, r0)
         else if create_res env < 0 then Some (create_res env, r0)
         else if put_res env 0 < 0 then Some (put_res env 0, r0)
         else if length (mProgram c) < unat (mProgramLen c) then None
         else
           (let r1 = r0 \<lparr> req_attrs := [(APF_ATTRIBUTE_PROGRAM_LEN, U32 (mProgramLen c))] \<rparr>;
                program = take (unat (mProgramLen c)) (mProgram c)
            in if put_res env 1 < 0 then Some (put_res env 1, r1)
               else Some (put_res env 1,
                          r1 \<lparr> req_attrs := req_attrs r1 @ [(APF_ATTRIBUTE_PROGRAM, Bytes program)] \<rparr>)))"

definition createGetPktFilterCapabilitesRequest :: "hdr_consts \<Rightarrow> request_env \<Rightarrow> int \<times> request" where
  "createGetPktFilterCapabilitesRequest K env =
     (create_res env,
      \<lparr> req_vendor_id = GOOGLE_OUI K,
        req_subcmd = SLSI_NL80211_VENDOR_SUBCMD_APF_GET_CAPABILITIES K, req_attrs = [] \<rparr>)"

definition createReadPktFilterRequest :: "hdr_consts \<Rightarrow> request_env \<Rightarrow> int \<times> request" where
  "createReadPktFilterRequest K env =
     (create_res env,
      \<lparr> req_vendor_id = GOOGLE_OUI K,
        req_subcmd = SLSI_NL80211_VENDOR_SUBCMD_APF_READ_FILTER K, req_attrs = [] \<rparr>)"

definition apf_createRequest ::
  "hdr_consts \<Rightarrow> request_env \<Rightarrow> AndroidPktFilterCommand \<Rightarrow> (int \<times> request) option" where
  "apf_createRequest K env c =
     (case mReqType c of
        SET_APF_PROGRAM \<Rightarrow> createSetPktFilterRequest K env c
      | GET_APF_CAPABILITIES \<Rightarrow> Some (createGetPktFilterCapabilitesRequest K env)
      | READ_APF_PROGRAM \<Rightarrow> Some (createReadPktFilterRequest K env))"

text \<open>The loop of \<^verbatim>\<open>handleResponse\<close> over the attributes of the vendor data, in order.\<close>

fun apf_capabilities_loop :: "nlattr list \<Rightarrow> AndroidPktFilterCommand \<Rightarrow> AndroidPktFilterCommand" where
  "apf_capabilities_loop [] c = c"
| "apf_capabilities_loop (it # rest) c =
     apf_capabilities_loop rest
       (if nla_type it = APF_ATTRIBUTE_VERSION then c \<lparr> mVersion := nla_get_u32 it \<rparr>
        else if nla_type it = APF_ATTRIBUTE_MAX_LEN then c \<lparr> mMaxLen := nla_get_u32 it \<rparr>
        else c)"

text \<open>
  \<^verbatim>\<open>AndroidPktFilterCommand::handleResponse\<close>. In the \<^verbatim>\<open>READ_APF_PROGRAM\<close> branch
  \<^verbatim>\<open>memcpy\<close> copies \<^verbatim>\<open>min(len, mLength)\<close> bytes from offset \<open>mSourceOffset\<close> of the
  vendor data to the start of the host buffer; when either range leaves its buffer the
  behaviour is undefined in C, and the model answers \<open>None\<close>.
\<close>

definition apf_handleResponse ::
  "hdr_consts \<Rightarrow> wifi_event \<Rightarrow> AndroidPktFilterCommand \<Rightarrow> (nl_cb_action \<times> AndroidPktFilterCommand) option" where
  "apf_handleResponse K reply c =
     (if get_cmd reply \<noteq> NL80211_CMD_VENDOR K then Some (NL_SKIP, c)
      else
        (case vendor_data reply of
           None \<Rightarrow> Some (NL_SKIP, c)
         | Some attrs \<Rightarrow>
             if get_vendor_data_len reply = 0 then Some (NL_SKIP, c)
             else
               (case mReqType c of
                  GET_APF_CAPABILITIES \<Rightarrow>
                    Some (NL_OK, apf_capabilities_loop attrs (c \<lparr> mVersion := 0, mMaxLen := 0 \<rparr>))
                | READ_APF_PROGRAM \<Rightarrow>
                    (let len = (word_of_int (get_vendor_data_len reply) :: u32);
                         data = get_vendor_data reply;
                         n = unat (min len (mLength c));
                         off = unat (mSourceOffset c)
                     in if off + n \<le> length data \<and> n \<le> length (mHostDestination c)
                        then Some (NL_OK, c \<lparr> mHostDestination :=
                                     take n (drop off data) @ drop n (mHostDestination c) \<rparr>)
                        else None)
                | SET_APF_PROGRAM \<Rightarrow> Some (NL_OK, c))))"

text \<open>
  \<^verbatim>\<open>AndroidPktFilterCommand::start\<close>: the result, the command after the reply was handled,
  and the requests sent on the command socket.
\<close>

definition apf_start ::
  "hdr_consts \<Rightarrow> request_env \<Rightarrow> AndroidPktFilterCommand \<Rightarrow> request list
     \<Rightarrow> (int \<times> AndroidPktFilterCommand \<times> request list) option" where
  "apf_start K env c sent =
     (case apf_createRequest K env c of
        None \<Rightarrow> None
      | Some (result, req) \<Rightarrow>
          if result < 0 then Some (result, c, sent)
          else
            (case requestResponse env req sent of
               (result, None, sent') \<Rightarrow> Some (result, c, sent')
             | (result, Some reply, sent') \<Rightarrow>
                 (case apf_handleResponse K reply c of
                    None \<Rightarrow> None
                  | Some (act, c') \<Rightarrow> Some (result, c', sent'))))"

text \<open>
  \<^verbatim>\<open>wifi_get_packet_filter_capabilities\<close>. \<open>cmd_ok\<close> says whether \<^verbatim>\<open>new\<close> gave a
  command object, \<open>version\<close> and \<open>max_len\<close> are the values behind the two pointers;
  the result carries the values behind them on return.
\<close>

definition wifi_get_packet_filter_capabilities ::
  "hdr_consts \<Rightarrow> request_env \<Rightarrow> bool \<Rightarrow> u32 \<Rightarrow> u32 \<Rightarrow> request list
     \<Rightarrow> (int \<times> u32 \<times> u32 \<times> request list) option" where
  "wifi_get_packet_filter_capabilities K env cmd_ok version max_len sent =
     (if \<not> cmd_ok then Some (WIFI_ERROR_OUT_OF_MEMORY K, version, max_len, sent)
      else
        (case apf_start K env (apf_get_capabilities_cmd version max_len) sent of
           None \<Rightarrow> None
         | Some (result, cmd, sent') \<Rightarrow>
             if result = WIFI_SUCCESS K then Some (result, mVersion cmd, mMaxLen cmd, sent')
             else Some (WIFI_SUCCESS K, 0, 0, sent')))"

subsection \<open>ND offload\<close>

text \<open>\<^verbatim>\<open>SetNdoffloadCommand::create\<close>, which builds the message \<open>mMsg\<close>.\<close>

definition ANDR_WIFI_ATTRIBUTE_ND_OFFLOAD_CONFIG :: "hdr_consts \<Rightarrow> int" where
  "ANDR_WIFI_ATTRIBUTE_ND_OFFLOAD_CONFIG K = WIFI_HAL_ATTR_START K"

definition ndo_create :: "hdr_consts \<Rightarrow> request_env \<Rightarrow> u8 \<Rightarrow> int \<times> request" where
  "ndo_create K env mEnable =
     (let r0 = \<lparr> req_vendor_id = GOOGLE_OUI K,
                   req_subcmd = SLSI_NL80211_VENDOR_SUBCMD_CONFIGURE_ND_OFFLOAD K,
                   req_attrs = [] \<rparr>
      in if create_res env < 0 then (WIFI_ERROR_NOT_AVAILABLE K, r0)
         else if put_res env 0 < 0 then (put_res env 0, r0)
         else (WIFI_SUCCESS K,
               r0 \<lparr> req_attrs := [(ANDR_WIFI_ATTRIBUTE_ND_OFFLOAD_CONFIG K, U8 mEnable)] \<rparr>))"

text \<open>
  Modelled from the spec: \<^verbatim>\<open>WifiCommand::requestResponse()\<close> without argument, of
  \<^verbatim>\<open>cpp_bindings.h\<close>, which is not among the sources. The spec's default issue is to
  "build the request, send it, block for the correlated reply", and codec errors
  "propagate as typed results up to the issuing command": a negative result of
  \<^verbatim>\<open>create\<close> is returned and nothing is sent.
\<close>

definition ndo_requestResponse ::
  "hdr_consts \<Rightarrow> request_env \<Rightarrow> u8 \<Rightarrow> request list \<Rightarrow> int \<times> request list" where
  "ndo_requestResponse K env mEnable sent =
     (case ndo_create K env mEnable of
        (err, msg) \<Rightarrow>
          if err < 0 then (err, sent)
          else (case requestResponse env msg sent of (res, reply, sent') \<Rightarrow> (res, sent')))"

text \<open>\<^verbatim>\<open>wifi_configure_nd_offload\<close>; the cast to \<^verbatim>\<open>wifi_error\<close> keeps the value.\<close>

definition wifi_configure_nd_offload ::
  "hdr_consts \<Rightarrow> request_env \<Rightarrow> u8 \<Rightarrow> request list \<Rightarrow> int \<times> request list" where
  "wifi_configure_nd_offload K env enable sent =
     (case ndo_requestResponse K env enable sent of
        (ret, sent') \<Rightarrow>
          if ret \<noteq> WIFI_SUCCESS K then
            if ret = - EPERM K then (WIFI_SUCCESS K, sent') else (ret, sent')
          else (ret, sent'))"

subsection \<open>The session state\<close>

text \<open>
  A \<^verbatim>\<open>WifiCommand\<close> object is named by its address, a callback function by its function
  pointer; \<open>None\<close> is the null pointer.
\<close>

type_synonym cmd_ref = nat
type_synonym fn_ptr = nat

text \<open>
  \<^verbatim>\<open>cb_info\<close>, one event registration. \<open>vendor_subcmd\<close> is an \<^verbatim>\<open>int\<close> in C and is
  compared with the message's \<^verbatim>\<open>u32\<close> subcommand converted to \<^verbatim>\<open>int\<close>: the two are
  equal exactly when their 32 bits are, so both are kept as \<open>u32\<close>.
\<close>

record cb_info =
  nl_cmd :: int
  vendor_id :: u32
  vendor_subcmd :: u32
  cb_func :: "fn_ptr option"
  cb_arg :: "cmd_ref option"

text \<open>
  \<^verbatim>\<open>hal_info\<close> together with what it points to: the two netlink sockets (a socket is
  named by its local port), the cleanup socket pair, the registrations
  (\<^verbatim>\<open>num_event_cb\<close> is the length of \<open>event_cb\<close>), the registry mutex, the reference
  counts \<^verbatim>\<open>mRefs\<close> of the command objects and the set of deleted ones, the interfaces,
  the lines logged, the requests sent on the command socket, the function pointer
  \<^verbatim>\<open>info->cleaned_up_handler\<close> (null until \<^verbatim>\<open>wifi_cleanup\<close> stores the caller's), the
  number of calls made through it, and whether \<^verbatim>\<open>info\<close> has been freed.
\<close>

record hal_state =
  cmd_sock :: "u32 option"
  event_sock :: "u32 option"
  cleanup_socks_open :: bool
  ioctl_sock :: int
  nl80211_family_id :: int
  event_cb :: "cb_info list"
  in_event_loop :: bool
  clean_up :: bool
  cb_lock :: bool
  mRefs :: "cmd_ref \<Rightarrow> int"
  deleted :: "cmd_ref set"
  interfaces :: "string list"
  num_interfaces :: int
  hal_log :: "string list"
  cmd_sock_sent :: "request list"
  cleaned_up_handler :: "fn_ptr option"
  cleaned_up_handler_calls :: nat
  info_freed :: bool

definition ALOG :: "string \<Rightarrow> hal_state \<Rightarrow> hal_state" where
  "ALOG line s = s \<lparr> hal_log := hal_log s @ [line] \<rparr>"

definition pthread_mutex_lock :: "hal_state \<Rightarrow> hal_state" where
  "pthread_mutex_lock s = s \<lparr> cb_lock := True \<rparr>"

definition pthread_mutex_unlock :: "hal_state \<Rightarrow> hal_state" where
  "pthread_mutex_unlock s = s \<lparr> cb_lock := False \<rparr>"

text \<open>
  Modelled from the spec: \<^verbatim>\<open>WifiCommand::addRef\<close> and \<^verbatim>\<open>WifiCommand::releaseRef\<close> of
  \<^verbatim>\<open>cpp_bindings.h\<close>, which is not among the sources. By the spec the reference counts
  "use atomic increment/decrement" and a command is "destroyed only when the reference
  count reaches zero".
\<close>

definition addRef :: "cmd_ref \<Rightarrow> hal_state \<Rightarrow> hal_state" where
  "addRef c s = s \<lparr> mRefs := (mRefs s) (c := mRefs s c + 1) \<rparr>"

definition releaseRef :: "cmd_ref \<Rightarrow> hal_state \<Rightarrow> hal_state" where
  "releaseRef c s =
     (let refs = mRefs s c - 1
      in s \<lparr> mRefs := (mRefs s) (c := refs),
             deleted := (if refs = 0 then insert c (deleted s) else deleted s) \<rparr>)"

subsection \<open>Dispatch of a received event\<close>

text \<open>
  A registered handler is arbitrary code behind a function pointer. The reference count
  of a command is written by \<^verbatim>\<open>addRef\<close> and \<^verbatim>\<open>releaseRef\<close> only, and a command is deleted
  by \<^verbatim>\<open>releaseRef\<close> only; so what happens between the entry of a handler and its return
  is a sequence of steps, each a call of \<^verbatim>\<open>addRef\<close> or of \<^verbatim>\<open>releaseRef\<close> on some
  command (by the handler, or by what it calls, such as a cancel) or a change to the rest
  of the state. \<open>H f msg arg\<close> is the sequence of steps of the call \<^verbatim>\<open>(*f)(msg, arg)\<close>;
  \<open>run_steps\<close> performs them and \<open>states_during\<close> lists the states the call passes
  through, from its entry to its return.
\<close>

datatype hstep = AddRef cmd_ref | ReleaseRef cmd_ref | Change "hal_state \<Rightarrow> hal_state"

fun do_step :: "hstep \<Rightarrow> hal_state \<Rightarrow> hal_state" where
  "do_step (AddRef c) s = addRef c s"
| "do_step (ReleaseRef c) s = releaseRef c s"
| "do_step (Change f) s = (f s) \<lparr> mRefs := mRefs s, deleted := deleted s \<rparr>"

type_synonym handlers = "fn_ptr \<Rightarrow> wifi_event \<Rightarrow> cmd_ref option \<Rightarrow> hstep list"

fun run_steps :: "hstep list \<Rightarrow> hal_state \<Rightarrow> hal_state" where
  "run_steps [] s = s"
| "run_steps (x # xs) s = run_steps xs (do_step x s)"

fun states_during :: "hstep list \<Rightarrow> hal_state \<Rightarrow> hal_state list" where
  "states_during [] s = [s]"
| "states_during (x # xs) s = s # states_during xs (do_step x s)"

text \<open>
  The body of the loop of \<^verbatim>\<open>internal_valid_message_handler\<close> once a registration is
  accepted, up to the \<^verbatim>\<open>return NL_OK\<close>, as the states it passes through, in order: the
  state with the mutex held in which the registration was accepted, the state after
  \<^verbatim>\<open>addRef\<close>, the states of the handler call from the release of the mutex to the
  handler's return (the state after \<^verbatim>\<open>pthread_mutex_unlock\<close> alone when \<^verbatim>\<open>cb_func\<close> is
  null), and the state after \<^verbatim>\<open>releaseRef\<close>, in which the function returns.
\<close>

definition deliver_states :: "handlers \<Rightarrow> wifi_event \<Rightarrow> cb_info \<Rightarrow> hal_state \<Rightarrow> hal_state list" where
  "deliver_states H msg cbi s =
     (let s1 = (case cb_arg cbi of Some cmd \<Rightarrow> addRef cmd s | None \<Rightarrow> s);
          s2 = pthread_mutex_unlock s1;
          during = (case cb_func cbi of
                      Some f \<Rightarrow> states_during (H f msg (cb_arg cbi)) s2
                    | None \<Rightarrow> [s2]);
          s3 = last during
      in [s, s1] @ during @ [case cb_arg cbi of Some cmd \<Rightarrow> releaseRef cmd s3 | None \<Rightarrow> s3])"

text \<open>The state in which these statements end.\<close>

definition deliver :: "handlers \<Rightarrow> wifi_event \<Rightarrow> cb_info \<Rightarrow> hal_state \<Rightarrow> hal_state" where
  "deliver H msg cbi s = last (deliver_states H msg cbi s)"

text \<open>The \<^verbatim>\<open>for\<close> loop over \<^verbatim>\<open>info->event_cb\<close>, on the registrations not yet visited.\<close>

fun event_cb_loop ::
  "hdr_consts \<Rightarrow> handlers \<Rightarrow> wifi_event \<Rightarrow> int \<Rightarrow> u32 \<Rightarrow> u32 \<Rightarrow> cb_info list \<Rightarrow> hal_state
     \<Rightarrow> nl_cb_action \<times> hal_state" where
  "event_cb_loop K H msg cmd vid subcmd [] s = (NL_OK, pthread_mutex_unlock s)"
| "event_cb_loop K H msg cmd vid subcmd (cbi # rest) s =
     (if cmd = nl_cmd cbi then
        if cmd = NL80211_CMD_VENDOR K \<and> (vid \<noteq> vendor_id cbi \<or> subcmd \<noteq> vendor_subcmd cbi)
        then event_cb_loop K H msg cmd vid subcmd rest s
        else (NL_OK, deliver H msg cbi s)
      else event_cb_loop K H msg cmd vid subcmd rest s)"

definition internal_valid_message_handler ::
  "hdr_consts \<Rightarrow> handlers \<Rightarrow> wifi_event \<Rightarrow> hal_state \<Rightarrow> nl_cb_action \<times> hal_state" where
  "internal_valid_message_handler K H msg s =
     (if parse_res msg < 0 then (NL_SKIP, ALOG ''Failed to parse event'' s)
      else
        (let cmd = get_cmd msg;
             vid = (if cmd = NL80211_CMD_VENDOR K then get_vendor_id msg else 0);
             subcmd = (if cmd = NL80211_CMD_VENDOR K then get_vendor_subcmd msg else 0);
             s1 = pthread_mutex_lock s
         in event_cb_loop K H msg cmd vid subcmd (event_cb s1) s1))"

text \<open>
  The signature match in the words of the spec: "exact match on message-type; for vendor
  messages, additional exact match on vendor-id and vendor-subcommand".
\<close>

definition signature_match :: "hdr_consts \<Rightarrow> wifi_event \<Rightarrow> cb_info \<Rightarrow> bool" where
  "signature_match K msg cbi =
     (nl_cmd cbi = get_cmd msg \<and>
      (if get_cmd msg = NL80211_CMD_VENDOR K
       then vendor_id cbi = get_vendor_id msg \<and> vendor_subcmd cbi = get_vendor_subcmd msg
       else True))"

subsection \<open>The event loop\<close>

text \<open>
  libnl's \<^verbatim>\<open>nl_recvmsgs\<close> on the event socket, with the callbacks that
  \<^verbatim>\<open>wifi_initialize\<close> installs: the sequence check accepts every message
  (\<^verbatim>\<open>internal_no_seq_check\<close>), and each message received goes to
  \<^verbatim>\<open>internal_valid_message_handler\<close>. The list holds the messages the socket delivers.
\<close>

definition internal_no_seq_check :: "wifi_event \<Rightarrow> nl_cb_action" where
  "internal_no_seq_check msg = NL_OK"

fun nl_recvmsgs :: "hdr_consts \<Rightarrow> handlers \<Rightarrow> wifi_event list \<Rightarrow> hal_state \<Rightarrow> hal_state" where
  "nl_recvmsgs K H [] s = s"
| "nl_recvmsgs K H (msg # msgs) s =
     (case internal_valid_message_handler K H msg s of
        (act, s') \<Rightarrow> if act = NL_STOP then s' else nl_recvmsgs K H msgs s')"

definition internal_pollin_handler :: "hdr_consts \<Rightarrow> handlers \<Rightarrow> wifi_event list \<Rightarrow> hal_state \<Rightarrow> hal_state" where
  "internal_pollin_handler K H msgs s = nl_recvmsgs K H msgs s"

text \<open>
  \<^verbatim>\<open>wifi_cleanup(handle, handler)\<close> runs on another thread. The event loop reads two of its
  assignments: it first stores the caller's handler in \<^verbatim>\<open>info->cleaned_up_handler\<close> and,
  after its loop over the commands, sets \<^verbatim>\<open>info->clean_up\<close>. How far that call has come
  when \<^verbatim>\<open>poll\<close> returns: not made, handler stored, or \<^verbatim>\<open>clean_up\<close> set as well. The
  handler is a function pointer given by the caller, \<open>None\<close> when it is null. The loop
  of \<^verbatim>\<open>wifi_cleanup\<close> over the commands is not part of this model, and its write to the
  cleanup socket shows as \<^verbatim>\<open>POLLIN\<close> on that socket in a return of \<^verbatim>\<open>poll\<close>.
\<close>

datatype cleanup_progress =
    Not_called
  | Handler_stored "fn_ptr option"
  | Clean_up_set "fn_ptr option"

text \<open>
  What one return of \<^verbatim>\<open>poll\<close> brings: its result (after \<^verbatim>\<open>TEMP_FAILURE_RETRY\<close>), the
  \<^verbatim>\<open>revents\<close> of the event socket and of the cleanup socket, the messages waiting on
  the event socket, the bytes read from the cleanup socket, and how far a call of
  \<^verbatim>\<open>wifi_cleanup\<close> has come since the return before.
\<close>

record poll_event =
  poll_res :: int
  revents0 :: "16 word"
  revents1 :: "16 word"
  pending :: "wifi_event list"
  cleanup_buf :: string
  cleanup_stage :: cleanup_progress

text \<open>\<open>seen e s\<close> is the state the loop works on after the return \<open>e\<close> of \<^verbatim>\<open>poll\<close>.\<close>

definition seen :: "poll_event \<Rightarrow> hal_state \<Rightarrow> hal_state" where
  "seen e s =
     (case cleanup_stage e of
        Not_called \<Rightarrow> s
      | Handler_stored handler \<Rightarrow> s \<lparr> cleaned_up_handler := handler \<rparr>
      | Clean_up_set handler \<Rightarrow> s \<lparr> cleaned_up_handler := handler, clean_up := True \<rparr>)"

text \<open>
  The body of the \<^verbatim>\<open>do\<close> loop: the flag says whether it left through \<^verbatim>\<open>break\<close>.
\<close>

definition loop_body :: "hdr_consts \<Rightarrow> handlers \<Rightarrow> poll_event \<Rightarrow> hal_state \<Rightarrow> bool \<times> hal_state" where
  "loop_body K H e s =
     (if poll_res e < 0 then (False, ALOG ''wifi_event_loop: return, error no'' s)
      else if revents0 e AND POLLERR K \<noteq> 0
        then (False, ALOG ''Poll err | Read after POLL returned, error no'' s)
      else if revents0 e AND POLLHUP K \<noteq> 0 then (True, ALOG ''Remote side hung up'' s)
      else if revents0 e AND POLLIN K \<noteq> 0 then (False, internal_pollin_handler K H (pending e) s)
      else if revents1 e AND POLLIN K \<noteq> 0
        then (False,
              (if take 4 (cleanup_buf e) = ''Exit'' then ALOG ''Got a signal to exit!!!''
               else ALOG ''Rx-ed on the cleanup socket'')
                (ALOG ''wifi_event_loop: Read after POLL returned, error no'' s))
      else (False, ALOG ''wifi_event_loop: Unknown event'' s))"

text \<open>
  \<^verbatim>\<open>internal_cleaned_up_handler\<close>. It reads \<^verbatim>\<open>info->cleaned_up_handler\<close>, closes and frees
  the sockets, and calls through the pointer without testing it. The pointer is null
  from the \<^verbatim>\<open>memset\<close> of \<^verbatim>\<open>wifi_initialize\<close> until \<^verbatim>\<open>wifi_cleanup\<close> stores the caller's
  handler; a call through a null pointer is undefined in C, and the function does not
  return from it: \<open>None\<close>.
\<close>

definition internal_cleaned_up_handler :: "hal_state \<Rightarrow> hal_state option" where
  "internal_cleaned_up_handler s =
     (let handler = cleaned_up_handler s;
          s1 = (if cmd_sock s \<noteq> None
                then s \<lparr> cleanup_socks_open := False, cmd_sock := None, event_sock := None \<rparr>
                else s)
      in (case handler of
            None \<Rightarrow> None
          | Some f \<Rightarrow>
              Some (s1 \<lparr> cleaned_up_handler_calls := Suc (cleaned_up_handler_calls s1),
                         info_freed := True \<rparr>)))"

text \<open>
  How a call of \<^verbatim>\<open>wifi_event_loop\<close> stands on the returns of \<^verbatim>\<open>poll\<close> given to it: still
  blocked in \<^verbatim>\<open>poll\<close> when they are used up, ended in the call through a null pointer,
  or returned, with the state on return and the returns of \<^verbatim>\<open>poll\<close> not consumed.
\<close>

datatype loop_result = Blocked | Crashed | Returned hal_state "poll_event list"

text \<open>What follows the loop: the teardown and the last line logged.\<close>

definition after_loop :: "hal_state \<Rightarrow> poll_event list \<Rightarrow> loop_result" where
  "after_loop s es =
     (case internal_cleaned_up_handler s of
        None \<Rightarrow> Crashed
      | Some s' \<Rightarrow> Returned (ALOG ''wifi_event_loop: end of event loop !!!!!'' s') es)"

text \<open>
  The \<^verbatim>\<open>do ... while (!info->clean_up)\<close> loop with what follows it, run on the returns of
  \<^verbatim>\<open>poll\<close> still to come.
\<close>

fun event_loop :: "hdr_consts \<Rightarrow> handlers \<Rightarrow> poll_event list \<Rightarrow> hal_state \<Rightarrow> loop_result" where
  "event_loop K H [] s = Blocked"
| "event_loop K H (e # es) s =
     (case loop_body K H e (seen e s) of
        (broke, s') \<Rightarrow>
          if broke \<or> clean_up s' then after_loop s' es
          else event_loop K H es s')"

definition wifi_event_loop :: "hdr_consts \<Rightarrow> handlers \<Rightarrow> poll_event list \<Rightarrow> hal_state \<Rightarrow> loop_result" where
  "wifi_event_loop K H es s =
     (if in_event_loop s then Returned s es
      else event_loop K H es (s \<lparr> in_event_loop := True \<rparr>))"

subsection \<open>Initialization\<close>

text \<open>
  What the system answers during \<^verbatim>\<open>wifi_initialize\<close>: the process id, the results of
  \<^verbatim>\<open>malloc\<close>, \<^verbatim>\<open>socketpair\<close>, \<^verbatim>\<open>nl_socket_alloc\<close> and \<^verbatim>\<open>nl_connect\<close> (by port
  seed), \<^verbatim>\<open>socket\<close>, \<^verbatim>\<open>nl_socket_get_cb\<close> and \<^verbatim>\<open>genl_ctrl_resolve\<close>; for each group
  name the result of \<^verbatim>\<open>GetMulticastIdCommand::requestResponse\<close> and the \<open>mId\<close> the
  command holds afterwards (\<open>- 1\<close> unless a reply named the group); the result of
  \<^verbatim>\<open>nl_socket_add_membership\<close> by group id; and the entries of \<^verbatim>\<open>/sys/class/net\<close>
  (\<open>None\<close> when \<^verbatim>\<open>opendir\<close> fails).
\<close>

record init_env =
  getpid :: u32
  malloc_ok :: bool
  socketpair_res :: int
  nl_socket_alloc_ok :: "u32 \<Rightarrow> bool"
  nl_connect_res :: "u32 \<Rightarrow> int"
  socket_res :: int
  nl_socket_get_cb_ok :: bool
  genl_ctrl_resolve_res :: int
  get_multicast_rr :: "string \<Rightarrow> int \<times> int"
  nl_socket_add_membership_res :: "int \<Rightarrow> int"
  sys_class_net :: "string list option"

definition wifi_create_nl_socket :: "init_env \<Rightarrow> u32 \<Rightarrow> u32 option" where
  "wifi_create_nl_socket env port =
     (if \<not> nl_socket_alloc_ok env port then None
      else
        (let sock = wifi_socket_set_local_port (getpid env) port
         in if nl_connect_res env port \<noteq> 0 then None else Some sock))"

definition wifi_get_multicast_id :: "init_env \<Rightarrow> string \<Rightarrow> int" where
  "wifi_get_multicast_id env group_name =
     (case get_multicast_rr env group_name of (res, mId) \<Rightarrow> if res < 0 then res else mId)"

definition wifi_add_membership :: "init_env \<Rightarrow> string \<Rightarrow> hal_state \<Rightarrow> int \<times> hal_state" where
  "wifi_add_membership env group_name s =
     (let mcast_id = wifi_get_multicast_id env group_name
      in if mcast_id < 0 then (mcast_id, ALOG (''Could not find group '' @ group_name) s)
         else
           (let ret = nl_socket_add_membership_res env mcast_id
            in if ret < 0 then (ret, ALOG (''Could not add membership to group '' @ group_name) s)
               else (ret, s)))"

definition is_wifi_interface :: "string \<Rightarrow> bool" where
  "is_wifi_interface name =
     (if take 4 name \<noteq> ''wlan'' \<and> take 3 name \<noteq> ''p2p'' \<and> take 4 name \<noteq> ''wifi''
         \<and> take 5 name \<noteq> ''swlan''
      then False else True)"

text \<open>
  \<^verbatim>\<open>wifi_init_interfaces\<close>; both passes over the directory see the same entries.
\<close>

definition wifi_init_interfaces :: "hdr_consts \<Rightarrow> init_env \<Rightarrow> hal_state \<Rightarrow> int \<times> hal_state" where
  "wifi_init_interfaces K env s =
     (case sys_class_net env of
        None \<Rightarrow> (WIFI_ERROR_UNKNOWN K, s)
      | Some names \<Rightarrow>
          (let found = filter (\<lambda>d_name. take 1 d_name \<noteq> ''.'' \<and> is_wifi_interface d_name) names
           in (WIFI_SUCCESS K, s \<lparr> interfaces := found, num_interfaces := int (length found) \<rparr>)))"

text \<open>
  \<^verbatim>\<open>wifi_initialize\<close>: the result and, when \<^verbatim>\<open>*handle\<close> was set, the session. The
  values returned by the four calls of \<^verbatim>\<open>wifi_add_membership\<close> and by
  \<^verbatim>\<open>wifi_init_interfaces\<close> are not looked at, as in the source.
\<close>

definition wifi_initialize :: "hdr_consts \<Rightarrow> init_env \<Rightarrow> int \<times> hal_state option" where
  "wifi_initialize K env =
     (if \<not> malloc_ok env then (WIFI_ERROR_UNKNOWN K, None)
      else if socketpair_res env = - 1 then (WIFI_ERROR_UNKNOWN K, None)
      else
        (case wifi_create_nl_socket env WIFI_HAL_CMD_SOCK_PORT of
           None \<Rightarrow> (WIFI_ERROR_UNKNOWN K, None)
         | Some cmd_sock' \<Rightarrow>
             (case wifi_create_nl_socket env WIFI_HAL_EVENT_SOCK_PORT of
                None \<Rightarrow> (WIFI_ERROR_UNKNOWN K, None)
              | Some event_sock' \<Rightarrow>
                  if socket_res env < 0 then (WIFI_ERROR_UNKNOWN K, None)
                  else if \<not> nl_socket_get_cb_ok env then (WIFI_ERROR_UNKNOWN K, None)
                  else
                    (let info = \<lparr> cmd_sock = Some cmd_sock', event_sock = Some event_sock',
                                  cleanup_socks_open = True, ioctl_sock = socket_res env,
                                  nl80211_family_id = genl_ctrl_resolve_res env,
                                  event_cb = [], in_event_loop = False, clean_up = False,
                                  cb_lock = False, mRefs = (\<lambda>c. 0), deleted = {},
                                  interfaces = [], num_interfaces = 0, hal_log = [],
                                  cmd_sock_sent = [], cleaned_up_handler = None,
                                  cleaned_up_handler_calls = 0, info_freed = False \<rparr>
                     in if nl80211_family_id info < 0 then (WIFI_ERROR_UNKNOWN K, None)
                        else
                          (let s1 = snd (wifi_add_membership env ''scan'' info);
                               s2 = snd (wifi_add_membership env ''mlme'' s1);
                               s3 = snd (wifi_add_membership env ''regulatory'' s2);
                               s4 = snd (wifi_add_membership env ''vendor'' s3);
                               s5 = snd (wifi_init_interfaces K env s4)
                           in (WIFI_SUCCESS K, Some s5))))))"

subsection \<open>The RSSI monitor command\<close>

record SetRSSIMonitorCommand =
  mMax_rssi :: u8
  mMin_rssi :: u8

definition RSSI_MONITOR_ATTRIBUTE_MAX_RSSI :: "hdr_consts \<Rightarrow> int" where
  "RSSI_MONITOR_ATTRIBUTE_MAX_RSSI K = WIFI_HAL_ATTR_START K"

definition RSSI_MONITOR_ATTRIBUTE_MIN_RSSI :: "hdr_consts \<Rightarrow> int" where
  "RSSI_MONITOR_ATTRIBUTE_MIN_RSSI K = WIFI_HAL_ATTR_START K + 1"

definition RSSI_MONITOR_ATTRIBUTE_START :: "hdr_consts \<Rightarrow> int" where
  "RSSI_MONITOR_ATTRIBUTE_START K = WIFI_HAL_ATTR_START K + 2"

text \<open>
  \<^verbatim>\<open>SetRSSIMonitorCommand::createRequest\<close>; \<open>enable\<close> is the \<^verbatim>\<open>int\<close> argument, and the
  signed thresholds go to \<^verbatim>\<open>put_u8\<close> with their 8 bits.
\<close>

definition rssi_createRequest ::
  "hdr_consts \<Rightarrow> request_env \<Rightarrow> SetRSSIMonitorCommand \<Rightarrow> int \<Rightarrow> int \<times> request" where
  "rssi_createRequest K env c enable =
     (let r0 = \<lparr> req_vendor_id = GOOGLE_OUI K,
                   req_subcmd = SLSI_NL80211_VENDOR_SUBCMD_SET_RSSI_MONITOR K, req_attrs = [] \<rparr>
      in if create_res env < 0 then (create_res env, r0)
         else if put_res env 0 < 0 then (put_res env 0, r0)
         else
           (let r1 = r0 \<lparr> req_attrs := [(RSSI_MONITOR_ATTRIBUTE_MAX_RSSI K,
                                            U8 (if enable \<noteq> 0 then mMax_rssi c else 0))] \<rparr>
            in if put_res env 1 < 0 then (put_res env 1, r1)
               else
                 (let r2 = r1 \<lparr> req_attrs := req_attrs r1 @
                                  [(RSSI_MONITOR_ATTRIBUTE_MIN_RSSI K,
                                    U8 (if enable \<noteq> 0 then mMin_rssi c else 0))] \<rparr>
                  in if put_res env 2 < 0 then (put_res env 2, r2)
                     else (put_res env 2,
                           r2 \<lparr> req_attrs := req_attrs r2 @
                                  [(RSSI_MONITOR_ATTRIBUTE_START K, U8 (word_of_int enable))] \<rparr>))))"

text \<open>
  Modelled from the spec: \<^verbatim>\<open>WifiCommand::unregisterVendorHandler\<close>, declared in
  \<^verbatim>\<open>cpp_bindings.h\<close> and implemented outside the sources. The spec's
  \<^verbatim>\<open>unregister_event_handler(signature)\<close> removes the registration of a signature, of
  which "at most one ... may exist per distinct key at a time", and "all registry
  mutation is serialized by a single mutex".
\<close>

definition unregisterVendorHandler :: "hdr_consts \<Rightarrow> u32 \<Rightarrow> u32 \<Rightarrow> hal_state \<Rightarrow> hal_state" where
  "unregisterVendorHandler K oui subcmd s =
     (let s1 = pthread_mutex_lock s;
          s2 = s1 \<lparr> event_cb :=
                 filter (\<lambda>cbi. \<not> (nl_cmd cbi = NL80211_CMD_VENDOR K \<and> vendor_id cbi = oui
                                   \<and> vendor_subcmd cbi = subcmd)) (event_cb s1) \<rparr>
      in pthread_mutex_unlock s2)"

text \<open>
  \<^verbatim>\<open>SetRSSIMonitorCommand::cancel\<close>. The command's \<^verbatim>\<open>handleResponse\<close> does nothing with
  the reply.
\<close>

definition rssi_handleResponse :: "wifi_event \<Rightarrow> nl_cb_action" where
  "rssi_handleResponse reply = NL_SKIP"

definition rssi_cancel ::
  "hdr_consts \<Rightarrow> request_env \<Rightarrow> SetRSSIMonitorCommand \<Rightarrow> hal_state \<Rightarrow> int \<times> hal_state" where
  "rssi_cancel K env c s =
     (let s1 =
        (case rssi_createRequest K env c 0 of
           (result, req) \<Rightarrow>
             if result \<noteq> WIFI_SUCCESS K then ALOG ''failed to create request'' s
             else
               (case requestResponse env req (cmd_sock_sent s) of
                  (result, reply, sent') \<Rightarrow>
                    (let s' = s \<lparr> cmd_sock_sent := sent' \<rparr>
                     in if result \<noteq> WIFI_SUCCESS K
                        then ALOG ''failed to stop RSSI monitoring'' s' else s')))
      in (WIFI_SUCCESS K,
          unregisterVendorHandler K (GOOGLE_OUI K) (WIFI_RSSI_REPORT_EVENT K) s1))"

subsection \<open>Notions used to state the properties\<close>

text \<open>
  The value a reply carries for an attribute id: that of the attribute with this id, the
  last one when the id occurs more than once, and \<open>None\<close> when it is absent.
\<close>

definition reply_attr :: "int \<Rightarrow> nlattr list \<Rightarrow> u32 option" where
  "reply_attr t attrs =
     (case filter (\<lambda>a. nla_type a = t) attrs of
        [] \<Rightarrow> None
      | xs \<Rightarrow> Some (nla_get_u32 (last xs)))"

text \<open>
  Every step of \<^verbatim>\<open>wifi_initialize\<close> before the resolution of the family id succeeds.
\<close>

definition init_steps_ok :: "init_env \<Rightarrow> bool" where
  "init_steps_ok env =
     (malloc_ok env \<and> socketpair_res env \<noteq> - 1
      \<and> nl_socket_alloc_ok env WIFI_HAL_CMD_SOCK_PORT
      \<and> nl_connect_res env WIFI_HAL_CMD_SOCK_PORT = 0
      \<and> nl_socket_alloc_ok env WIFI_HAL_EVENT_SOCK_PORT
      \<and> nl_connect_res env WIFI_HAL_EVENT_SOCK_PORT = 0
      \<and> 0 \<le> socket_res env \<and> nl_socket_get_cb_ok env)"

text \<open>The line that joining a multicast group leaves in the log, if any.\<close>

definition membership_log :: "init_env \<Rightarrow> string \<Rightarrow> string list" where
  "membership_log env group_name =
     (if wifi_get_multicast_id env group_name < 0 then [''Could not find group '' @ group_name]
      else if nl_socket_add_membership_res env (wifi_get_multicast_id env group_name) < 0
        then [''Could not add membership to group '' @ group_name]
      else [])"

text \<open>
  The line that one call of \<^verbatim>\<open>SetRSSIMonitorCommand::cancel\<close> logs, and the request it
  sends on the command socket, if any.
\<close>

definition rssi_cancel_lines :: "hdr_consts \<Rightarrow> request_env \<Rightarrow> SetRSSIMonitorCommand \<Rightarrow> string list" where
  "rssi_cancel_lines K env c =
     (if fst (rssi_createRequest K env c 0) \<noteq> WIFI_SUCCESS K then [''failed to create request'']
      else if rr_res env \<noteq> WIFI_SUCCESS K then [''failed to stop RSSI monitoring'']
      else [])"

definition rssi_cancel_requests :: "hdr_consts \<Rightarrow> request_env \<Rightarrow> SetRSSIMonitorCommand \<Rightarrow> request list" where
  "rssi_cancel_requests K env c =
     (if fst (rssi_createRequest K env c 0) = WIFI_SUCCESS K
      then [snd (rssi_createRequest K env c 0)] else [])"



text \<open>
  The state and the returns of \<^verbatim>\<open>poll\<close> left over when a call of \<^verbatim>\<open>wifi_event_loop\<close> has
  returned; \<open>None\<close> when it has not.
\<close>

fun returned :: "loop_result \<Rightarrow> (hal_state \<times> poll_event list) option" where
  "returned (Returned s es) = Some (s, es)"
| "returned Blocked = None"
| "returned Crashed = None"

subsection \<open>Concrete inputs\<close>

text \<open>A vendor reply with an attribute of unknown id, version 3 and maximal length 2048.\<close>

definition sample_reply :: wifi_event where
  "sample_reply =
     \<lparr> parse_res = 0, get_cmd = 103, get_vendor_id = 0x001A11, get_vendor_subcmd = 23,
       vendor_data = Some [\<lparr> nla_type = 7, nla_get_u32 = 99 \<rparr>,
                           \<lparr> nla_type = 0, nla_get_u32 = 3 \<rparr>,
                           \<lparr> nla_type = 1, nla_get_u32 = 2048 \<rparr>],
       get_vendor_data_len = 24, get_vendor_data = [] \<rparr>"

text \<open>
  A transport on which requests are built without error and the exchange ends with the
  given result and reply.
\<close>

definition sample_env :: "int \<Rightarrow> wifi_event option \<Rightarrow> request_env" where
  "sample_env res reply =
     \<lparr> new_ok = True, create_res = 0, put_res = (\<lambda>i. 0), rr_res = res, rr_reply = reply \<rparr>"

text \<open>
  A session of process 1 with two vendor registrations of the Google OUI, the second one
  for the RSSI event, each bound to a command with one reference; an RSSI event; and
  handlers that log one line.
\<close>

definition rssi_registration :: cb_info where
  "rssi_registration =
     \<lparr> nl_cmd = 103, vendor_id = 0x001A11, vendor_subcmd = 3, cb_func = Some 1, cb_arg = Some 1 \<rparr>"

definition other_registration :: cb_info where
  "other_registration =
     \<lparr> nl_cmd = 103, vendor_id = 0x001A11, vendor_subcmd = 4, cb_func = Some 2, cb_arg = Some 2 \<rparr>"

definition sample_state :: hal_state where
  "sample_state =
     \<lparr> cmd_sock = Some 2701131777, event_sock = Some 2705326081, cleanup_socks_open = True,
       ioctl_sock = 5, nl80211_family_id = 28,
       event_cb = [other_registration, rssi_registration],
       in_event_loop = False, clean_up = False, cb_lock = False,
       mRefs = (\<lambda>c. 1), deleted = {}, interfaces = [''wlan0''], num_interfaces = 1,
       hal_log = [], cmd_sock_sent = [], cleaned_up_handler = None,
       cleaned_up_handler_calls = 0, info_freed = False \<rparr>"

definition rssi_event :: wifi_event where
  "rssi_event =
     \<lparr> parse_res = 0, get_cmd = 103, get_vendor_id = 0x001A11, get_vendor_subcmd = 3,
       vendor_data = None, get_vendor_data_len = 0, get_vendor_data = [] \<rparr>"

definition sample_handlers :: handlers where
  "sample_handlers f msg arg = [Change (ALOG ''event handled'')]"

definition sample_rssi_cmd :: SetRSSIMonitorCommand where
  "sample_rssi_cmd = \<lparr> mMax_rssi = 0xD8, mMin_rssi = 0xA6 \<rparr>"


text \<open>
  Returns of \<^verbatim>\<open>poll\<close>: a hang-up of the event socket, a hang-up together with an error
  (\<open>POLLERR | POLLHUP\<close>), and a failure of \<^verbatim>\<open>poll\<close> itself.
\<close>

definition hup_event :: poll_event where
  "hup_event =
     \<lparr> poll_res = 1, revents0 = 16, revents1 = 0, pending = [], cleanup_buf = [],
       cleanup_stage = Not_called \<rparr>"

definition err_hup_event :: poll_event where
  "err_hup_event =
     \<lparr> poll_res = 1, revents0 = 24, revents1 = 0, pending = [], cleanup_buf = [],
       cleanup_stage = Not_called \<rparr>"

definition poll_failed_event :: poll_event where
  "poll_failed_event =
     \<lparr> poll_res = - 1, revents0 = 0, revents1 = 0, pending = [], cleanup_buf = [],
       cleanup_stage = Not_called \<rparr>"

text \<open>
  The same hang-up and the same failure of \<^verbatim>\<open>poll\<close>, seen after another thread has
  called \<^verbatim>\<open>wifi_cleanup\<close> with the handler 7.
\<close>

definition hup_after_cleanup_event :: poll_event where
  "hup_after_cleanup_event = hup_event \<lparr> cleanup_stage := Clean_up_set (Some 7) \<rparr>"

definition poll_failed_after_cleanup_event :: poll_event where
  "poll_failed_after_cleanup_event = poll_failed_event \<lparr> cleanup_stage := Clean_up_set (Some 7) \<rparr>"

text \<open>
  A system on which every step of initialization succeeds, with the given family id and
  the given \<open>mId\<close> for every multicast group.
\<close>

definition sample_init_env :: "int \<Rightarrow> int \<Rightarrow> init_env" where
  "sample_init_env family mcast =
     \<lparr> getpid = 1, malloc_ok = True, socketpair_res = 0, nl_socket_alloc_ok = (\<lambda>p. True),
       nl_connect_res = (\<lambda>p. 0), socket_res = 5, nl_socket_get_cb_ok = True,
       genl_ctrl_resolve_res = family, get_multicast_rr = (\<lambda>g. (0, mcast)),
       nl_socket_add_membership_res = (\<lambda>i. 0), sys_class_net = Some [''.'', ''lo'', ''wlan0''] \<rparr>"

section \<open>Properties\<close>

subsection \<open>Local ports\<close>

lemma and_mask22: "unat ((pid::u32) AND 0x3FFFFF) = unat pid mod 2 ^ 22"
proof -
  have "(0x3FFFFF :: u32) = mask 22" by (simp add: mask_eq_exp_minus_1)
  then have "pid AND 0x3FFFFF = take_bit 22 pid" by (simp only: take_bit_eq_mask)
  then have "unat (pid AND 0x3FFFFF) = take_bit 22 (unat pid)" by (simp only: unsigned_take_bit_eq)
  then show ?thesis by (simp only: take_bit_eq_mod)
qed

lemma unat_local_port:
  "unat (wifi_socket_set_local_port pid port) = (unat pid mod 2 ^ 22 + unat port * 2 ^ 22) mod 2 ^ 32"
  by (simp add: wifi_socket_set_local_port_def and_mask22[simplified] unat_word_ariths
      push_bit_eq_mult mod_simps)

text \<open>
  C9. For every process id the local port is \<open>(pid & 0x3FFFFF) + (port << 22)\<close>. With the
  seeds 644 and 645 the sum does not wrap around: the port is the low 22 bits of the
  process id plus \<open>644 * 2^22\<close>, respectively \<open>645 * 2^22\<close>, so the command socket and
  the event socket of one process never get the same local port.
\<close>

theorem local_ports_distinct:
  "wifi_socket_set_local_port pid port = (pid AND 0x3FFFFF) + push_bit 22 port
   \<and> unat (wifi_socket_set_local_port pid WIFI_HAL_CMD_SOCK_PORT) = unat pid mod 2 ^ 22 + 644 * 2 ^ 22
   \<and> unat (wifi_socket_set_local_port pid WIFI_HAL_EVENT_SOCK_PORT) = unat pid mod 2 ^ 22 + 645 * 2 ^ 22
   \<and> wifi_socket_set_local_port pid WIFI_HAL_CMD_SOCK_PORT
       \<noteq> wifi_socket_set_local_port pid WIFI_HAL_EVENT_SOCK_PORT"
proof -
  have lt: "unat pid mod 2 ^ 22 < 2 ^ 22" by simp
  have c1: "unat pid mod 2 ^ 22 + 644 * 2 ^ 22 < (2::nat) ^ 32" using lt by simp
  have c2: "unat pid mod 2 ^ 22 + 645 * 2 ^ 22 < (2::nat) ^ 32" using lt by simp
  have p1: "unat (wifi_socket_set_local_port pid WIFI_HAL_CMD_SOCK_PORT)
              = unat pid mod 2 ^ 22 + 644 * 2 ^ 22"
    unfolding unat_local_port using c1 by (simp add: WIFI_HAL_CMD_SOCK_PORT_def)
  have p2: "unat (wifi_socket_set_local_port pid WIFI_HAL_EVENT_SOCK_PORT)
              = unat pid mod 2 ^ 22 + 645 * 2 ^ 22"
    unfolding unat_local_port using c2 by (simp add: WIFI_HAL_EVENT_SOCK_PORT_def)
  have p3: "wifi_socket_set_local_port pid WIFI_HAL_CMD_SOCK_PORT
              \<noteq> wifi_socket_set_local_port pid WIFI_HAL_EVENT_SOCK_PORT"
  proof
    assume "wifi_socket_set_local_port pid WIFI_HAL_CMD_SOCK_PORT
              = wifi_socket_set_local_port pid WIFI_HAL_EVENT_SOCK_PORT"
    then have "unat (wifi_socket_set_local_port pid WIFI_HAL_CMD_SOCK_PORT)
              = unat (wifi_socket_set_local_port pid WIFI_HAL_EVENT_SOCK_PORT)" by simp
    then show False unfolding p1 p2 by simp
  qed
  show ?thesis using p1 p2 p3 by (simp add: wifi_socket_set_local_port_def)
qed

subsection \<open>The reply to a capabilities request\<close>

lemma reply_attr_Nil: "reply_attr t [] = None"
  by (simp add: reply_attr_def)

lemma reply_attr_Cons:
  "reply_attr t (a # as) =
     (case reply_attr t as of
        Some v \<Rightarrow> Some v
      | None \<Rightarrow> if nla_type a = t then Some (nla_get_u32 a) else None)"
  by (simp add: reply_attr_def split: list.splits)

lemma apf_capabilities_loop_fields:
  "apf_capabilities_loop attrs c =
     c \<lparr> mVersion := (case reply_attr APF_ATTRIBUTE_VERSION attrs of
                         None \<Rightarrow> mVersion c | Some v \<Rightarrow> v),
         mMaxLen := (case reply_attr APF_ATTRIBUTE_MAX_LEN attrs of
                        None \<Rightarrow> mMaxLen c | Some v \<Rightarrow> v) \<rparr>"
proof (induction attrs arbitrary: c)
  case Nil
  show ?case by (simp add: reply_attr_Nil)
next
  case (Cons a as)
  show ?case
    unfolding apf_capabilities_loop.simps Cons.IH reply_attr_Cons
    by (simp add: APF_ATTRIBUTE_VERSION_def APF_ATTRIBUTE_MAX_LEN_def split: option.splits)
qed

lemma reply_attr_all:
  assumes "\<exists>a\<in>set attrs. nla_type a = t"
    and "\<forall>a\<in>set attrs. nla_type a = t \<longrightarrow> nla_get_u32 a = v"
  shows "reply_attr t attrs = Some v"
proof -
  let ?xs = "filter (\<lambda>a. nla_type a = t) attrs"
  from assms(1) have ne: "?xs \<noteq> []" by (auto simp: filter_empty_conv)
  then have "last ?xs \<in> set ?xs" by (rule last_in_set)
  then have v: "nla_get_u32 (last ?xs) = v" using assms(2) by auto
  from ne obtain x xs' where xs: "?xs = x # xs'" by (cases ?xs) auto
  have "reply_attr t attrs = Some (nla_get_u32 (last ?xs))"
    unfolding reply_attr_def xs by simp
  with v show ?thesis by simp
qed

text \<open>
  C7. A vendor reply with vendor data, handled in \<^verbatim>\<open>GET_APF_CAPABILITIES\<close> mode, is
  accepted with \<^verbatim>\<open>NL_OK\<close>; afterwards \<open>*mVersion\<close> and \<open>*mMaxLen\<close> hold the values the
  reply carries for \<^verbatim>\<open>APF_ATTRIBUTE_VERSION\<close> and \<^verbatim>\<open>APF_ATTRIBUTE_MAX_LEN\<close>, 0 for an
  absent one, attributes with any other id are skipped, and nothing else of the command
  changes. In particular a reply whose version attribute is 3 and whose maximal length
  attribute is 2048 stores 3 and 2048.
\<close>

theorem apf_capabilities_reply:
  assumes "get_cmd reply = NL80211_CMD_VENDOR K"
    and "vendor_data reply = Some attrs"
    and "get_vendor_data_len reply \<noteq> 0"
    and "mReqType c = GET_APF_CAPABILITIES"
  shows "apf_handleResponse K reply c =
           Some (NL_OK,
                 c \<lparr> mVersion := (case reply_attr APF_ATTRIBUTE_VERSION attrs of
                                     None \<Rightarrow> 0 | Some v \<Rightarrow> v),
                     mMaxLen := (case reply_attr APF_ATTRIBUTE_MAX_LEN attrs of
                                    None \<Rightarrow> 0 | Some v \<Rightarrow> v) \<rparr>)
         \<and> ((\<exists>a\<in>set attrs. nla_type a = APF_ATTRIBUTE_VERSION) \<and>
            (\<forall>a\<in>set attrs. nla_type a = APF_ATTRIBUTE_VERSION \<longrightarrow> nla_get_u32 a = 3) \<and>
            (\<exists>a\<in>set attrs. nla_type a = APF_ATTRIBUTE_MAX_LEN) \<and>
            (\<forall>a\<in>set attrs. nla_type a = APF_ATTRIBUTE_MAX_LEN \<longrightarrow> nla_get_u32 a = 2048)
            \<longrightarrow> apf_handleResponse K reply c = Some (NL_OK, c \<lparr> mVersion := 3, mMaxLen := 2048 \<rparr>))"
proof -
  have main: "apf_handleResponse K reply c =
           Some (NL_OK,
                 c \<lparr> mVersion := (case reply_attr APF_ATTRIBUTE_VERSION attrs of
                                     None \<Rightarrow> 0 | Some v \<Rightarrow> v),
                     mMaxLen := (case reply_attr APF_ATTRIBUTE_MAX_LEN attrs of
                                    None \<Rightarrow> 0 | Some v \<Rightarrow> v) \<rparr>)"
    using assms
    by (simp add: apf_handleResponse_def apf_capabilities_loop_fields split: option.splits)
  have special: "apf_handleResponse K reply c = Some (NL_OK, c \<lparr> mVersion := 3, mMaxLen := 2048 \<rparr>)"
    if h: "(\<exists>a\<in>set attrs. nla_type a = APF_ATTRIBUTE_VERSION) \<and>
            (\<forall>a\<in>set attrs. nla_type a = APF_ATTRIBUTE_VERSION \<longrightarrow> nla_get_u32 a = 3) \<and>
            (\<exists>a\<in>set attrs. nla_type a = APF_ATTRIBUTE_MAX_LEN) \<and>
            (\<forall>a\<in>set attrs. nla_type a = APF_ATTRIBUTE_MAX_LEN \<longrightarrow> nla_get_u32 a = 2048)"
  proof -
    from h have "reply_attr APF_ATTRIBUTE_VERSION attrs = Some 3"
      and "reply_attr APF_ATTRIBUTE_MAX_LEN attrs = Some 2048"
      by (simp_all add: reply_attr_all)
    then show ?thesis using main by simp
  qed
  from main special show ?thesis by blast
qed

theorem apf_capabilities_reply_witness:
  "get_cmd sample_reply = NL80211_CMD_VENDOR sample_consts
   \<and> get_vendor_data_len sample_reply \<noteq> 0
   \<and> mReqType (apf_get_capabilities_cmd 7 7) = GET_APF_CAPABILITIES
   \<and> apf_handleResponse sample_consts sample_reply (apf_get_capabilities_cmd 7 7) =
       Some (NL_OK, apf_get_capabilities_cmd 3 2048)"
proof -
  have h1: "get_cmd sample_reply = NL80211_CMD_VENDOR sample_consts"
    by (simp add: sample_reply_def sample_consts_def)
  have h2: "vendor_data sample_reply =
              Some [\<lparr> nla_type = 7, nla_get_u32 = 99 \<rparr>, \<lparr> nla_type = 0, nla_get_u32 = 3 \<rparr>,
                    \<lparr> nla_type = 1, nla_get_u32 = 2048 \<rparr>]"
    by (simp add: sample_reply_def)
  have h3: "get_vendor_data_len sample_reply \<noteq> 0"
    by (simp add: sample_reply_def)
  have h4: "mReqType (apf_get_capabilities_cmd 7 7) = GET_APF_CAPABILITIES"
    by (simp add: apf_get_capabilities_cmd_def)
  from apf_capabilities_reply [OF h1 h2 h3 h4]
  have "apf_handleResponse sample_consts sample_reply (apf_get_capabilities_cmd 7 7) =
          Some (NL_OK, apf_get_capabilities_cmd 7 7 \<lparr> mVersion := 3, mMaxLen := 2048 \<rparr>)"
    by (simp add: APF_ATTRIBUTE_VERSION_def APF_ATTRIBUTE_MAX_LEN_def reply_attr_def)
  then show ?thesis using h1 h3 h4 by (simp add: apf_get_capabilities_cmd_def)
qed

subsection \<open>ND offload and permission denial\<close>

text \<open>
  C6. For every value of \<open>enable\<close>, \<^verbatim>\<open>wifi_configure_nd_offload\<close> returns \<^verbatim>\<open>WIFI_SUCCESS\<close>
  when the command's \<^verbatim>\<open>requestResponse\<close> returns \<open>-EPERM\<close>, and otherwise the result of
  \<^verbatim>\<open>requestResponse\<close> itself, cast to \<^verbatim>\<open>wifi_error\<close>.
\<close>

theorem nd_offload_eperm_is_success:
  "fst (wifi_configure_nd_offload K env enable sent) =
     (if fst (ndo_requestResponse K env enable sent) = - EPERM K then WIFI_SUCCESS K
      else fst (ndo_requestResponse K env enable sent))"
  by (auto simp: wifi_configure_nd_offload_def split: prod.splits)

theorem nd_offload_eperm_is_success_witness:
  "fst (ndo_requestResponse sample_consts (sample_env (- 1) None) 1 []) = - EPERM sample_consts
   \<and> fst (wifi_configure_nd_offload sample_consts (sample_env (- 1) None) 1 []) = 0
   \<and> fst (wifi_configure_nd_offload sample_consts (sample_env (- 95) None) 1 []) = - 95"
proof -
  have a: "fst (ndo_requestResponse sample_consts (sample_env (- 1) None) 1 []) = - 1"
    by (simp add: ndo_requestResponse_def ndo_create_def requestResponse_def sample_env_def
        sample_consts_def)
  have b: "fst (ndo_requestResponse sample_consts (sample_env (- 95) None) 1 []) = - 95"
    by (simp add: ndo_requestResponse_def ndo_create_def requestResponse_def sample_env_def
        sample_consts_def)
  have k: "EPERM sample_consts = 1" "WIFI_SUCCESS sample_consts = 0"
    by (simp_all add: sample_consts_def)
  show ?thesis
    using nd_offload_eperm_is_success [of sample_consts "sample_env (- 1) None" 1 "[]"]
      nd_offload_eperm_is_success [of sample_consts "sample_env (- 95) None" 1 "[]"]
    by (simp add: a b k)
qed

lemma apf_start_get:
  "\<exists>r c' sent'. apf_start K env (apf_get_capabilities_cmd v m) sent = Some (r, c', sent')"
  by (auto simp: apf_start_def apf_createRequest_def apf_get_capabilities_cmd_def
      createGetPktFilterCapabilitesRequest_def requestResponse_def apf_handleResponse_def
      split: option.splits prod.splits)

subsection \<open>The capabilities entry point\<close>

text \<open>
  C10. \<^verbatim>\<open>wifi_get_packet_filter_capabilities\<close> returns \<^verbatim>\<open>WIFI_ERROR_OUT_OF_MEMORY\<close>, with
  the outputs untouched, when no command object could be allocated. Otherwise the
  command's \<^verbatim>\<open>start\<close> returns some result, and the function returns \<^verbatim>\<open>WIFI_SUCCESS\<close>
  whatever that result is: with the values \<^verbatim>\<open>start\<close> left behind the pointers when it
  succeeded, and with 0 written to both \<open>*version\<close> and \<open>*max_len\<close> when it did not.
\<close>

theorem packet_filter_capabilities_never_fails:
  "(\<not> cmd_ok \<longrightarrow>
      wifi_get_packet_filter_capabilities K env cmd_ok version max_len sent =
        Some (WIFI_ERROR_OUT_OF_MEMORY K, version, max_len, sent))
   \<and> (cmd_ok \<longrightarrow>
      (\<exists>r cmd sent'.
         apf_start K env (apf_get_capabilities_cmd version max_len) sent = Some (r, cmd, sent')
         \<and> wifi_get_packet_filter_capabilities K env cmd_ok version max_len sent =
             (if r = WIFI_SUCCESS K then Some (WIFI_SUCCESS K, mVersion cmd, mMaxLen cmd, sent')
              else Some (WIFI_SUCCESS K, 0, 0, sent'))))"
proof (intro conjI impI)
  assume "\<not> cmd_ok"
  then show "wifi_get_packet_filter_capabilities K env cmd_ok version max_len sent =
        Some (WIFI_ERROR_OUT_OF_MEMORY K, version, max_len, sent)"
    by (simp add: wifi_get_packet_filter_capabilities_def)
next
  assume ok: cmd_ok
  from apf_start_get obtain r cmd sent' where
    st: "apf_start K env (apf_get_capabilities_cmd version max_len) sent = Some (r, cmd, sent')"
    by blast
  have "wifi_get_packet_filter_capabilities K env cmd_ok version max_len sent =
             (if r = WIFI_SUCCESS K then Some (WIFI_SUCCESS K, mVersion cmd, mMaxLen cmd, sent')
              else Some (WIFI_SUCCESS K, 0, 0, sent'))"
    using ok st by (simp add: wifi_get_packet_filter_capabilities_def)
  with st show "\<exists>r cmd sent'.
         apf_start K env (apf_get_capabilities_cmd version max_len) sent = Some (r, cmd, sent')
         \<and> wifi_get_packet_filter_capabilities K env cmd_ok version max_len sent =
             (if r = WIFI_SUCCESS K then Some (WIFI_SUCCESS K, mVersion cmd, mMaxLen cmd, sent')
              else Some (WIFI_SUCCESS K, 0, 0, sent'))"
    by blast
qed

theorem packet_filter_capabilities_never_fails_witness:
  "fst (the (apf_start sample_consts (sample_env (- 95) None) (apf_get_capabilities_cmd 7 7) [])) = - 95
   \<and> (\<exists>sent'. wifi_get_packet_filter_capabilities sample_consts (sample_env (- 95) None) True 7 7 []
         = Some (0, 0, 0, sent'))
   \<and> wifi_get_packet_filter_capabilities sample_consts (sample_env (- 95) None) False 7 7 []
         = Some (- 9, 7, 7, [])"
proof -
  have st: "apf_start sample_consts (sample_env (- 95) None) (apf_get_capabilities_cmd 7 7) [] =
      Some (- 95, apf_get_capabilities_cmd 7 7,
            [\<lparr> req_vendor_id = 0x001A11, req_subcmd = 23, req_attrs = [] \<rparr>])"
    by (simp add: apf_start_def apf_createRequest_def apf_get_capabilities_cmd_def
        createGetPktFilterCapabilitesRequest_def requestResponse_def sample_env_def
        sample_consts_def)
  have k: "WIFI_SUCCESS sample_consts = 0" "WIFI_ERROR_OUT_OF_MEMORY sample_consts = - 9"
    by (simp_all add: sample_consts_def)
  show ?thesis
    using packet_filter_capabilities_never_fails
            [of True sample_consts "sample_env (- 95) None" 7 7 "[]"]
      packet_filter_capabilities_never_fails
            [of False sample_consts "sample_env (- 95) None" 7 7 "[]"]
    by (simp add: st k)
qed

lemma event_cb_loop_find:
  "event_cb_loop K H msg cmd vid subcmd cbs s =
     (case find (\<lambda>cbi. cmd = nl_cmd cbi \<and>
                   \<not> (cmd = NL80211_CMD_VENDOR K \<and> (vid \<noteq> vendor_id cbi \<or> subcmd \<noteq> vendor_subcmd cbi))) cbs of
        None \<Rightarrow> (NL_OK, pthread_mutex_unlock s)
      | Some cbi \<Rightarrow> (NL_OK, deliver H msg cbi s))"
  by (induction cbs) auto

lemma code_match_is_signature_match:
  "(\<lambda>cbi. get_cmd msg = nl_cmd cbi \<and>
      \<not> (get_cmd msg = NL80211_CMD_VENDOR K \<and>
          ((if get_cmd msg = NL80211_CMD_VENDOR K then get_vendor_id msg else 0) \<noteq> vendor_id cbi \<or>
           (if get_cmd msg = NL80211_CMD_VENDOR K then get_vendor_subcmd msg else 0) \<noteq> vendor_subcmd cbi)))
   = signature_match K msg"
  by (rule ext) (auto simp: signature_match_def)

lemma handler_find:
  "internal_valid_message_handler K H msg s =
     (if parse_res msg < 0 then (NL_SKIP, ALOG ''Failed to parse event'' s)
      else
        (case find (signature_match K msg) (event_cb s) of
           None \<Rightarrow> (NL_OK, pthread_mutex_unlock (pthread_mutex_lock s))
         | Some cbi \<Rightarrow> (NL_OK, deliver H msg cbi (pthread_mutex_lock s))))"
proof -
  have ev: "event_cb (pthread_mutex_lock s) = event_cb s"
    by (simp add: pthread_mutex_lock_def)
  show ?thesis
    unfolding internal_valid_message_handler_def Let_def event_cb_loop_find ev
      code_match_is_signature_match
    by simp
qed

lemma find_first:
  "find P xs = Some x \<Longrightarrow> \<exists>pre post. xs = pre @ x # post \<and> (\<forall>y\<in>set pre. \<not> P y) \<and> P x"
proof (induction xs)
  case Nil
  then show ?case by simp
next
  case (Cons a xs)
  show ?case
  proof (cases "P a")
    case True
    with Cons.prems have "a = x" by simp
    with True have "a # xs = [] @ x # xs \<and> (\<forall>y\<in>set []. \<not> P y) \<and> P x" by simp
    then show ?thesis by blast
  next
    case False
    with Cons.prems have "find P xs = Some x" by simp
    from Cons.IH [OF this] obtain pre post where
      "xs = pre @ x # post" "\<forall>y\<in>set pre. \<not> P y" "P x" by blast
    with False have "a # xs = (a # pre) @ x # post \<and> (\<forall>y\<in>set (a # pre). \<not> P y) \<and> P x" by simp
    then show ?thesis by blast
  qed
qed

subsection \<open>Dispatch goes to the first registration with the message's signature\<close>

text \<open>
  C1. \<^verbatim>\<open>internal_valid_message_handler\<close> runs no handler for a message that does not
  parse or that no registration matches; otherwise it delivers the message to one
  registration only, the first in the table whose signature matches, and returns. The
  registration it delivers to has the \<^verbatim>\<open>nl_cmd\<close> of the message and, when the command is
  \<^verbatim>\<open>NL80211_CMD_VENDOR\<close>, the vendor id and the vendor subcommand of the message: an event
  for \<open>(V1, S1)\<close> never goes to a registration for \<open>(V1, S2)\<close> or \<open>(V2, S1)\<close>.
\<close>

theorem event_dispatch_exact_match:
  "internal_valid_message_handler K H msg s =
     (if parse_res msg < 0 then (NL_SKIP, ALOG ''Failed to parse event'' s)
      else
        (case find (signature_match K msg) (event_cb s) of
           None \<Rightarrow> (NL_OK, pthread_mutex_unlock (pthread_mutex_lock s))
         | Some cbi \<Rightarrow> (NL_OK, deliver H msg cbi (pthread_mutex_lock s))))
   \<and> (\<forall>cbi. find (signature_match K msg) (event_cb s) = Some cbi \<longrightarrow>
         (\<exists>pre post. event_cb s = pre @ cbi # post \<and> (\<forall>x\<in>set pre. \<not> signature_match K msg x))
         \<and> nl_cmd cbi = get_cmd msg
         \<and> (get_cmd msg = NL80211_CMD_VENDOR K \<longrightarrow>
              vendor_id cbi = get_vendor_id msg \<and> vendor_subcmd cbi = get_vendor_subcmd msg))"
proof (intro conjI allI impI)
  show "internal_valid_message_handler K H msg s =
     (if parse_res msg < 0 then (NL_SKIP, ALOG ''Failed to parse event'' s)
      else
        (case find (signature_match K msg) (event_cb s) of
           None \<Rightarrow> (NL_OK, pthread_mutex_unlock (pthread_mutex_lock s))
         | Some cbi \<Rightarrow> (NL_OK, deliver H msg cbi (pthread_mutex_lock s))))"
    by (rule handler_find)
next
  fix cbi
  assume f: "find (signature_match K msg) (event_cb s) = Some cbi"
  from find_first [OF f] obtain pre post where
    p: "event_cb s = pre @ cbi # post" "\<forall>x\<in>set pre. \<not> signature_match K msg x"
      and m: "signature_match K msg cbi" by blast
  from p show "\<exists>pre post. event_cb s = pre @ cbi # post \<and> (\<forall>x\<in>set pre. \<not> signature_match K msg x)"
    by blast
  from m show "nl_cmd cbi = get_cmd msg" by (simp add: signature_match_def)
  {
    assume "get_cmd msg = NL80211_CMD_VENDOR K"
    with m show "vendor_id cbi = get_vendor_id msg" by (simp add: signature_match_def)
  }
  {
    assume "get_cmd msg = NL80211_CMD_VENDOR K"
    with m show "vendor_subcmd cbi = get_vendor_subcmd msg" by (simp add: signature_match_def)
  }
qed

lemma sample_find:
  "find (signature_match sample_consts rssi_event) (event_cb sample_state) = Some rssi_registration"
  by (simp add: signature_match_def sample_consts_def rssi_event_def sample_state_def
      rssi_registration_def other_registration_def)

theorem event_dispatch_exact_match_witness:
  "find (signature_match sample_consts rssi_event) (event_cb sample_state) = Some rssi_registration
   \<and> internal_valid_message_handler sample_consts sample_handlers rssi_event sample_state =
       (NL_OK, deliver sample_handlers rssi_event rssi_registration (pthread_mutex_lock sample_state))
   \<and> vendor_subcmd other_registration \<noteq> get_vendor_subcmd rssi_event
   \<and> hal_log (snd (internal_valid_message_handler sample_consts sample_handlers rssi_event sample_state))
       = [''event handled'']"
proof -
  have p: "\<not> parse_res rssi_event < 0" by (simp add: rssi_event_def)
  have d: "hal_log (deliver sample_handlers rssi_event rssi_registration (pthread_mutex_lock sample_state))
            = [''event handled'']"
    by (simp add: deliver_def deliver_states_def rssi_registration_def sample_handlers_def
        addRef_def releaseRef_def pthread_mutex_lock_def pthread_mutex_unlock_def ALOG_def
        sample_state_def Let_def)
  have o: "vendor_subcmd other_registration \<noteq> get_vendor_subcmd rssi_event"
    by (simp add: other_registration_def rssi_event_def)
  from event_dispatch_exact_match [of sample_consts sample_handlers rssi_event sample_state]
  have "internal_valid_message_handler sample_consts sample_handlers rssi_event sample_state =
       (NL_OK, deliver sample_handlers rssi_event rssi_registration (pthread_mutex_lock sample_state))"
    using p sample_find by simp
  then show ?thesis using sample_find d o by simp
qed

subsection \<open>The reference held during dispatch\<close>

lemma states_during_ne: "states_during steps t \<noteq> []"
  by (cases steps) simp_all

lemma last_states_during: "last (states_during steps t) = run_steps steps t"
  by (induction steps arbitrary: t) (simp_all add: states_during_ne)



lemma deliver_result:
  "deliver H msg cbi s =
     (let s1 = (case cb_arg cbi of Some cmd \<Rightarrow> addRef cmd s | None \<Rightarrow> s);
          s2 = pthread_mutex_unlock s1;
          s3 = (case cb_func cbi of Some f \<Rightarrow> run_steps (H f msg (cb_arg cbi)) s2 | None \<Rightarrow> s2)
      in (case cb_arg cbi of Some cmd \<Rightarrow> releaseRef cmd s3 | None \<Rightarrow> s3))"
  by (simp add: deliver_states_def deliver_def Let_def last_states_during split: option.splits)









subsection \<open>Starting the event loop twice\<close>

text \<open>
  C5. \<^verbatim>\<open>wifi_event_loop\<close> on a handle whose \<open>in_event_loop\<close> flag is set returns at once:
  the state is unchanged and no return of \<^verbatim>\<open>poll\<close> is consumed. A call with the flag clear
  runs the loop on the state with the flag set, so that a further call made from then
  on is such a no-op.
\<close>

theorem event_loop_reentry_is_noop:
  "(in_event_loop s \<longrightarrow> wifi_event_loop K H es s = Returned s es)
   \<and> (\<not> in_event_loop s \<longrightarrow>
        wifi_event_loop K H es s = event_loop K H es (s \<lparr> in_event_loop := True \<rparr>)
        \<and> wifi_event_loop K H es' (s \<lparr> in_event_loop := True \<rparr>)
            = Returned (s \<lparr> in_event_loop := True \<rparr>) es')"
  by (simp add: wifi_event_loop_def)

theorem event_loop_reentry_is_noop_witness:
  "in_event_loop (sample_state \<lparr> in_event_loop := True \<rparr>)
   \<and> wifi_event_loop sample_consts sample_handlers [hup_event] (sample_state \<lparr> in_event_loop := True \<rparr>)
       = Returned (sample_state \<lparr> in_event_loop := True \<rparr>) [hup_event]
   \<and> \<not> in_event_loop sample_state
   \<and> wifi_event_loop sample_consts sample_handlers [] sample_state = Blocked
   \<and> wifi_event_loop sample_consts sample_handlers [hup_event] (sample_state \<lparr> in_event_loop := True \<rparr>)
       = Returned (sample_state \<lparr> in_event_loop := True \<rparr>) [hup_event]
   \<and> map_option snd
        (returned (wifi_event_loop sample_consts sample_handlers
                     [hup_after_cleanup_event, hup_event] sample_state))
       = Some [hup_event]"
proof -
  have a: "in_event_loop (sample_state \<lparr> in_event_loop := True \<rparr>)" by simp
  have b: "\<not> in_event_loop sample_state" by (simp add: sample_state_def)
  have c: "map_option snd
             (returned (event_loop sample_consts sample_handlers [hup_after_cleanup_event, hup_event]
                (sample_state \<lparr> in_event_loop := True \<rparr>))) = Some [hup_event]"
    by (simp add: loop_body_def seen_def after_loop_def internal_cleaned_up_handler_def
        hup_after_cleanup_event_def hup_event_def sample_consts_def sample_state_def ALOG_def Let_def)
  from event_loop_reentry_is_noop
         [of "sample_state \<lparr> in_event_loop := True \<rparr>" sample_consts sample_handlers "[hup_event]"]
    event_loop_reentry_is_noop [of sample_state sample_consts sample_handlers "[]" "[hup_event]"]
    event_loop_reentry_is_noop [of sample_state sample_consts sample_handlers
                                  "[hup_after_cleanup_event, hup_event]"]
  show ?thesis using a b c by simp
qed

subsection \<open>One iteration of the poll loop\<close>

lemma teardown_with_handler:
  assumes "cleaned_up_handler t \<noteq> None"
  shows "\<exists>t'. internal_cleaned_up_handler t = Some t'
            \<and> cleaned_up_handler_calls t' = Suc (cleaned_up_handler_calls t)
            \<and> info_freed t'
            \<and> after_loop t es = Returned (ALOG ''wifi_event_loop: end of event loop !!!!!'' t') es"
  using assms by (auto simp: after_loop_def internal_cleaned_up_handler_def Let_def)

text \<open>
  C4, as amended. In an iteration where \<^verbatim>\<open>poll\<close> succeeded and the event socket reports
  \<^verbatim>\<open>POLLHUP\<close> without \<^verbatim>\<open>POLLERR\<close>, the loop logs the hang-up, leaves through \<^verbatim>\<open>break\<close>
  and enters the teardown. In an iteration where \<^verbatim>\<open>poll\<close> failed or the event socket
  reports \<^verbatim>\<open>POLLERR\<close> (with or without \<^verbatim>\<open>POLLHUP\<close>), the loop logs one line and does
  not break: it goes on to the next iteration, unless \<open>clean_up\<close> has been set, in which
  case it enters the teardown as after any other iteration. The teardown, entered in a
  state where \<^verbatim>\<open>wifi_cleanup\<close> has stored a handler, calls that handler once, frees the
  session and lets \<^verbatim>\<open>wifi_event_loop\<close> return after its last line of log.
\<close>

theorem event_loop_iteration:
  "(0 \<le> poll_res e \<and> revents0 e AND POLLERR K = 0 \<and> revents0 e AND POLLHUP K \<noteq> 0 \<longrightarrow>
      loop_body K H e (seen e s) = (True, ALOG ''Remote side hung up'' (seen e s))
      \<and> event_loop K H (e # es) s = after_loop (ALOG ''Remote side hung up'' (seen e s)) es)
   \<and> (poll_res e < 0 \<or> revents0 e AND POLLERR K \<noteq> 0 \<longrightarrow>
      (\<exists>line. line \<in> {''wifi_event_loop: return, error no'',
                       ''Poll err | Read after POLL returned, error no''}
         \<and> loop_body K H e (seen e s) = (False, ALOG line (seen e s))
         \<and> event_loop K H (e # es) s =
             (if clean_up (seen e s) then after_loop (ALOG line (seen e s)) es
              else event_loop K H es (ALOG line (seen e s)))))
   \<and> (cleaned_up_handler t \<noteq> None \<longrightarrow>
      (\<exists>t'. internal_cleaned_up_handler t = Some t'
          \<and> cleaned_up_handler_calls t' = Suc (cleaned_up_handler_calls t)
          \<and> info_freed t'
          \<and> after_loop t es = Returned (ALOG ''wifi_event_loop: end of event loop !!!!!'' t') es))"
proof (intro conjI impI)
  assume "0 \<le> poll_res e \<and> revents0 e AND POLLERR K = 0 \<and> revents0 e AND POLLHUP K \<noteq> 0"
  then show "loop_body K H e (seen e s) = (True, ALOG ''Remote side hung up'' (seen e s))"
    by (simp add: loop_body_def)
  then show "event_loop K H (e # es) s = after_loop (ALOG ''Remote side hung up'' (seen e s)) es"
    by simp
next
  assume h: "poll_res e < 0 \<or> revents0 e AND POLLERR K \<noteq> 0"
  let ?line = "if poll_res e < 0 then ''wifi_event_loop: return, error no''
               else ''Poll err | Read after POLL returned, error no''"
  have body: "loop_body K H e (seen e s) = (False, ALOG ?line (seen e s))"
    using h by (auto simp: loop_body_def)
  have cu: "clean_up (ALOG ?line (seen e s)) = clean_up (seen e s)"
    by (simp add: ALOG_def)
  have "event_loop K H (e # es) s =
             (if clean_up (seen e s) then after_loop (ALOG ?line (seen e s)) es
              else event_loop K H es (ALOG ?line (seen e s)))"
    unfolding event_loop.simps body by (simp add: cu)
  moreover have "?line \<in> {''wifi_event_loop: return, error no'',
                       ''Poll err | Read after POLL returned, error no''}"
    by simp
  ultimately show "\<exists>line. line \<in> {''wifi_event_loop: return, error no'',
                       ''Poll err | Read after POLL returned, error no''}
         \<and> loop_body K H e (seen e s) = (False, ALOG line (seen e s))
         \<and> event_loop K H (e # es) s =
             (if clean_up (seen e s) then after_loop (ALOG line (seen e s)) es
              else event_loop K H es (ALOG line (seen e s)))"
    using body by blast
next
  assume "cleaned_up_handler t \<noteq> None"
  then show "\<exists>t'. internal_cleaned_up_handler t = Some t'
          \<and> cleaned_up_handler_calls t' = Suc (cleaned_up_handler_calls t)
          \<and> info_freed t'
          \<and> after_loop t es = Returned (ALOG ''wifi_event_loop: end of event loop !!!!!'' t') es"
    by (rule teardown_with_handler)
qed

text \<open>
  C4 as stated fails: when the event socket reports \<^verbatim>\<open>POLLERR\<close> and \<^verbatim>\<open>POLLHUP\<close> together
  (\<open>revents = 24\<close>), the \<^verbatim>\<open>POLLERR\<close> branch is taken first and the loop does not end: after
  that iteration the thread is in \<^verbatim>\<open>poll\<close> again, and it takes a later return of \<^verbatim>\<open>poll\<close>
  to end the loop.
\<close>

theorem hangup_with_error_does_not_end_loop:
  "0 \<le> poll_res err_hup_event
   \<and> revents0 err_hup_event AND POLLHUP sample_consts \<noteq> 0
   \<and> \<not> fst (loop_body sample_consts sample_handlers err_hup_event
               (seen err_hup_event (sample_state \<lparr> in_event_loop := True \<rparr>)))
   \<and> wifi_event_loop sample_consts sample_handlers [err_hup_event] sample_state = Blocked
   \<and> map_option (\<lambda>r. (hal_log (fst r), snd r))
        (returned (wifi_event_loop sample_consts sample_handlers
                     [err_hup_event, hup_after_cleanup_event, hup_event] sample_state))
       = Some ([''Poll err | Read after POLL returned, error no'', ''Remote side hung up'',
                ''wifi_event_loop: end of event loop !!!!!''], [hup_event])"
  by (simp add: wifi_event_loop_def loop_body_def seen_def after_loop_def
      internal_cleaned_up_handler_def err_hup_event_def hup_after_cleanup_event_def hup_event_def
      sample_consts_def sample_state_def ALOG_def Let_def)

text \<open>
  A hang-up before any call of \<^verbatim>\<open>wifi_cleanup\<close> enters the teardown with the handler still
  null: the sockets are closed and the call through the pointer does not return.
\<close>

lemma hangup_before_cleanup_does_not_return:
  "cleaned_up_handler sample_state = None
   \<and> wifi_event_loop sample_consts sample_handlers [hup_event] sample_state = Crashed"
  by (simp add: wifi_event_loop_def loop_body_def seen_def after_loop_def
      internal_cleaned_up_handler_def hup_event_def
      sample_consts_def sample_state_def ALOG_def Let_def)

theorem event_loop_iteration_witness:
  "0 \<le> poll_res hup_after_cleanup_event
   \<and> revents0 hup_after_cleanup_event AND POLLERR sample_consts = 0
   \<and> revents0 hup_after_cleanup_event AND POLLHUP sample_consts \<noteq> 0
   \<and> cleaned_up_handler (ALOG ''Remote side hung up'' (seen hup_after_cleanup_event sample_state)) \<noteq> None
   \<and> map_option (\<lambda>r. (hal_log (fst r), cleaned_up_handler_calls (fst r), snd r))
        (returned (event_loop sample_consts sample_handlers
                     [hup_after_cleanup_event, hup_event] sample_state))
       = Some ([''Remote side hung up'', ''wifi_event_loop: end of event loop !!!!!''],
               1, [hup_event])
   \<and> poll_res poll_failed_event < 0
   \<and> \<not> clean_up (seen poll_failed_event sample_state)
   \<and> event_loop sample_consts sample_handlers [poll_failed_event] sample_state = Blocked
   \<and> revents0 err_hup_event AND POLLERR sample_consts \<noteq> 0
   \<and> \<not> clean_up (seen err_hup_event sample_state)
   \<and> event_loop sample_consts sample_handlers [err_hup_event] sample_state = Blocked
   \<and> poll_res poll_failed_after_cleanup_event < 0
   \<and> clean_up (seen poll_failed_after_cleanup_event sample_state)
   \<and> map_option (\<lambda>r. (hal_log (fst r), cleaned_up_handler_calls (fst r), snd r))
        (returned (event_loop sample_consts sample_handlers
                     [poll_failed_after_cleanup_event, hup_event] sample_state))
       = Some ([''wifi_event_loop: return, error no'', ''wifi_event_loop: end of event loop !!!!!''],
               1, [hup_event])"
proof -
  let ?t = "ALOG ''Remote side hung up'' (seen hup_after_cleanup_event sample_state)"
  have h: "0 \<le> poll_res hup_after_cleanup_event
           \<and> revents0 hup_after_cleanup_event AND POLLERR sample_consts = 0
           \<and> revents0 hup_after_cleanup_event AND POLLHUP sample_consts \<noteq> 0"
    by (simp add: hup_after_cleanup_event_def hup_event_def sample_consts_def)
  have ht: "cleaned_up_handler ?t \<noteq> None"
    by (simp add: ALOG_def seen_def hup_after_cleanup_event_def)
  note inst = event_loop_iteration [where e = hup_after_cleanup_event and K = sample_consts
      and H = sample_handlers and es = "[hup_event]" and s = sample_state and t = ?t]
  from inst h have e1: "event_loop sample_consts sample_handlers
                     [hup_after_cleanup_event, hup_event] sample_state = after_loop ?t [hup_event]"
    by blast
  from inst ht obtain t' where t': "internal_cleaned_up_handler ?t = Some t'"
      "cleaned_up_handler_calls t' = Suc (cleaned_up_handler_calls ?t)"
      "after_loop ?t [hup_event] = Returned (ALOG ''wifi_event_loop: end of event loop !!!!!'' t') [hup_event]"
    by blast
  have log_t': "hal_log t' = [''Remote side hung up'']"
    using t'(1)
    by (auto simp: internal_cleaned_up_handler_def Let_def ALOG_def seen_def
        hup_after_cleanup_event_def sample_state_def split: option.splits if_splits)
  have calls_t: "cleaned_up_handler_calls ?t = 0"
    by (simp add: ALOG_def seen_def hup_after_cleanup_event_def sample_state_def)
  have a: "map_option (\<lambda>r. (hal_log (fst r), cleaned_up_handler_calls (fst r), snd r))
        (returned (event_loop sample_consts sample_handlers
                     [hup_after_cleanup_event, hup_event] sample_state))
       = Some ([''Remote side hung up'', ''wifi_event_loop: end of event loop !!!!!''],
               1, [hup_event])"
    unfolding e1 t'(3) using t'(2) log_t' calls_t by (simp add: ALOG_def)
  have f: "poll_res poll_failed_event < 0" by (simp add: poll_failed_event_def)
  have nc: "\<not> clean_up (seen poll_failed_event sample_state)"
    by (simp add: seen_def poll_failed_event_def sample_state_def)
  from event_loop_iteration [where e = poll_failed_event and K = sample_consts
      and H = sample_handlers and es = "[]" and s = sample_state]
    f nc
  have b: "event_loop sample_consts sample_handlers [poll_failed_event] sample_state = Blocked"
    by auto
  have g: "revents0 err_hup_event AND POLLERR sample_consts \<noteq> 0"
    by (simp add: err_hup_event_def sample_consts_def)
  have ng: "\<not> clean_up (seen err_hup_event sample_state)"
    by (simp add: seen_def err_hup_event_def sample_state_def)
  from event_loop_iteration [where e = err_hup_event and K = sample_consts
      and H = sample_handlers and es = "[]" and s = sample_state]
    g ng
  have b2: "event_loop sample_consts sample_handlers [err_hup_event] sample_state = Blocked"
    by auto
  have f3: "poll_res poll_failed_after_cleanup_event < 0"
    by (simp add: poll_failed_after_cleanup_event_def poll_failed_event_def)
  have c3: "clean_up (seen poll_failed_after_cleanup_event sample_state)"
    by (simp add: seen_def poll_failed_after_cleanup_event_def)
  from event_loop_iteration [where e = poll_failed_after_cleanup_event and K = sample_consts
      and H = sample_handlers and es = "[hup_event]" and s = sample_state] f3 c3
  obtain line where l: "loop_body sample_consts sample_handlers poll_failed_after_cleanup_event
           (seen poll_failed_after_cleanup_event sample_state)
         = (False, ALOG line (seen poll_failed_after_cleanup_event sample_state))"
     "event_loop sample_consts sample_handlers [poll_failed_after_cleanup_event, hup_event] sample_state
         = after_loop (ALOG line (seen poll_failed_after_cleanup_event sample_state)) [hup_event]"
    by (auto simp del: event_loop.simps)
  from l(1) f3 have line: "line = ''wifi_event_loop: return, error no''"
    by (simp add: loop_body_def ALOG_def sample_state_def seen_def
        poll_failed_after_cleanup_event_def)
  have c: "map_option (\<lambda>r. (hal_log (fst r), cleaned_up_handler_calls (fst r), snd r))
        (returned (event_loop sample_consts sample_handlers
                     [poll_failed_after_cleanup_event, hup_event] sample_state))
       = Some ([''wifi_event_loop: return, error no'', ''wifi_event_loop: end of event loop !!!!!''],
               1, [hup_event])"
    unfolding l(2) line
    by (simp add: after_loop_def internal_cleaned_up_handler_def Let_def ALOG_def seen_def
        poll_failed_after_cleanup_event_def sample_state_def)
  from h ht a f nc b g ng b2 f3 c3 c show ?thesis by blast
qed

lemma hal_log_add_membership:
  "hal_log (snd (wifi_add_membership env g s)) = hal_log s @ membership_log env g"
  by (simp add: wifi_add_membership_def membership_log_def ALOG_def Let_def)

lemma hal_log_init_interfaces:
  "hal_log (snd (wifi_init_interfaces K env s)) = hal_log s"
  by (simp add: wifi_init_interfaces_def Let_def split: option.splits)

lemma initialize_ok:
  assumes "init_steps_ok env" and "0 \<le> genl_ctrl_resolve_res env"
  shows "\<exists>s. wifi_initialize K env = (WIFI_SUCCESS K, Some s)
              \<and> hal_log s = membership_log env ''scan'' @ membership_log env ''mlme''
                    @ membership_log env ''regulatory'' @ membership_log env ''vendor''"
proof -
  from assms(1) have
    c: "wifi_create_nl_socket env WIFI_HAL_CMD_SOCK_PORT
          = Some (wifi_socket_set_local_port (getpid env) WIFI_HAL_CMD_SOCK_PORT)"
    and e: "wifi_create_nl_socket env WIFI_HAL_EVENT_SOCK_PORT
          = Some (wifi_socket_set_local_port (getpid env) WIFI_HAL_EVENT_SOCK_PORT)"
    by (simp_all add: init_steps_ok_def wifi_create_nl_socket_def Let_def)
  from assms have r: "malloc_ok env" "socketpair_res env \<noteq> - 1" "\<not> socket_res env < 0"
    "nl_socket_get_cb_ok env" "\<not> genl_ctrl_resolve_res env < 0"
    by (simp_all add: init_steps_ok_def)
  show ?thesis
    unfolding wifi_initialize_def c e
    using r
    by (simp add: Let_def hal_log_add_membership hal_log_init_interfaces)
qed

lemma initialize_family_unresolved:
  assumes "genl_ctrl_resolve_res env < 0"
  shows "wifi_initialize K env = (WIFI_ERROR_UNKNOWN K, None)"
  using assms by (simp add: wifi_initialize_def Let_def split: option.splits)

subsection \<open>What is fatal to initialization\<close>

text \<open>
  C3, as amended. \<^verbatim>\<open>wifi_initialize\<close> fails with \<^verbatim>\<open>WIFI_ERROR_UNKNOWN\<close>, setting no
  handle, whenever the nl80211 family id cannot be resolved. When the sockets and the
  family id were obtained it returns \<^verbatim>\<open>WIFI_SUCCESS\<close> whatever the resolution and the
  joining of the four multicast groups give: a group that cannot be resolved or joined
  leaves a line in the log, in the order scan, mlme, regulatory, vendor, and nothing else.
\<close>

theorem initialize_fatal_errors:
  "(genl_ctrl_resolve_res env < 0 \<longrightarrow> wifi_initialize K env = (WIFI_ERROR_UNKNOWN K, None))
   \<and> (init_steps_ok env \<and> 0 \<le> genl_ctrl_resolve_res env \<longrightarrow>
        (\<exists>s. wifi_initialize K env = (WIFI_SUCCESS K, Some s)
              \<and> hal_log s = membership_log env ''scan'' @ membership_log env ''mlme''
                    @ membership_log env ''regulatory'' @ membership_log env ''vendor''))"
  using initialize_ok initialize_family_unresolved by blast

theorem initialize_fatal_errors_witness:
  "genl_ctrl_resolve_res (sample_init_env (- 2) 7) < 0
   \<and> fst (wifi_initialize sample_consts (sample_init_env (- 2) 7)) = - 1
   \<and> init_steps_ok (sample_init_env 28 (- 1))
   \<and> fst (wifi_initialize sample_consts (sample_init_env 28 (- 1))) = 0
   \<and> map_option hal_log (snd (wifi_initialize sample_consts (sample_init_env 28 (- 1))))
       = Some [''Could not find group scan'', ''Could not find group mlme'',
               ''Could not find group regulatory'', ''Could not find group vendor'']"
proof -
  have a: "genl_ctrl_resolve_res (sample_init_env (- 2) 7) < 0"
    by (simp add: sample_init_env_def)
  have b: "init_steps_ok (sample_init_env 28 (- 1))"
    by (simp add: sample_init_env_def init_steps_ok_def)
  have c: "0 \<le> genl_ctrl_resolve_res (sample_init_env 28 (- 1))"
    by (simp add: sample_init_env_def)
  have m: "membership_log (sample_init_env 28 (- 1)) g = [''Could not find group '' @ g]" for g
    by (simp add: membership_log_def wifi_get_multicast_id_def sample_init_env_def)
  have k: "WIFI_ERROR_UNKNOWN sample_consts = - 1" "WIFI_SUCCESS sample_consts = 0"
    by (simp_all add: sample_consts_def)
  from initialize_fatal_errors [of "sample_init_env (- 2) 7" sample_consts] a
  have r1: "fst (wifi_initialize sample_consts (sample_init_env (- 2) 7)) = - 1"
    by (simp add: k)
  from initialize_fatal_errors [of "sample_init_env 28 (- 1)" sample_consts] b c
  obtain s where s: "wifi_initialize sample_consts (sample_init_env 28 (- 1)) = (WIFI_SUCCESS sample_consts, Some s)"
    "hal_log s = membership_log (sample_init_env 28 (- 1)) ''scan'' @ membership_log (sample_init_env 28 (- 1)) ''mlme''
                    @ membership_log (sample_init_env 28 (- 1)) ''regulatory'' @ membership_log (sample_init_env 28 (- 1)) ''vendor''"
    by blast
  from s have r2: "fst (wifi_initialize sample_consts (sample_init_env 28 (- 1))) = 0"
    by (simp add: k)
  from s have r3: "map_option hal_log (snd (wifi_initialize sample_consts (sample_init_env 28 (- 1))))
       = Some [''Could not find group scan'', ''Could not find group mlme'',
               ''Could not find group regulatory'', ''Could not find group vendor'']"
    by (simp add: m)
  from a r1 b r2 r3 show ?thesis by blast
qed

text \<open>
  C3 as stated fails: with every step up to the family id successful and none of the
  four multicast groups resolved, \<^verbatim>\<open>wifi_initialize\<close> returns \<^verbatim>\<open>WIFI_SUCCESS\<close>.
\<close>

theorem unresolved_groups_still_succeed:
  "wifi_get_multicast_id (sample_init_env 28 (- 1)) ''scan'' < 0
   \<and> wifi_get_multicast_id (sample_init_env 28 (- 1)) ''mlme'' < 0
   \<and> wifi_get_multicast_id (sample_init_env 28 (- 1)) ''regulatory'' < 0
   \<and> wifi_get_multicast_id (sample_init_env 28 (- 1)) ''vendor'' < 0
   \<and> fst (wifi_initialize sample_consts (sample_init_env 28 (- 1))) = WIFI_SUCCESS sample_consts"
proof -
  have g: "wifi_get_multicast_id (sample_init_env 28 (- 1)) n = - 1" for n
    by (simp add: wifi_get_multicast_id_def sample_init_env_def)
  have "init_steps_ok (sample_init_env 28 (- 1))"
    by (simp add: sample_init_env_def init_steps_ok_def)
  moreover have "0 \<le> genl_ctrl_resolve_res (sample_init_env 28 (- 1))"
    by (simp add: sample_init_env_def)
  ultimately obtain s where "wifi_initialize sample_consts (sample_init_env 28 (- 1))
        = (WIFI_SUCCESS sample_consts, Some s)"
    using initialize_ok by blast
  then show ?thesis by (simp add: g)
qed

lemma rssi_cancel_result: "fst (rssi_cancel K env c s) = WIFI_SUCCESS K"
  by (simp add: rssi_cancel_def Let_def)

lemma rssi_cancel_state:
  "snd (rssi_cancel K env c s) =
     s \<lparr> event_cb :=
           filter (\<lambda>cbi. \<not> (nl_cmd cbi = NL80211_CMD_VENDOR K \<and> vendor_id cbi = GOOGLE_OUI K
                            \<and> vendor_subcmd cbi = WIFI_RSSI_REPORT_EVENT K)) (event_cb s),
         cb_lock := False,
         hal_log := hal_log s @ rssi_cancel_lines K env c,
         cmd_sock_sent := cmd_sock_sent s @ rssi_cancel_requests K env c \<rparr>"
proof -
  obtain result req where cr: "rssi_createRequest K env c 0 = (result, req)"
    by (cases "rssi_createRequest K env c 0")
  show ?thesis
    unfolding rssi_cancel_def rssi_cancel_lines_def rssi_cancel_requests_def cr
    by (simp add: Let_def unregisterVendorHandler_def pthread_mutex_lock_def
        pthread_mutex_unlock_def ALOG_def requestResponse_def)
qed


subsection \<open>Cancelling the RSSI monitor twice\<close>

text \<open>
  C8, as amended. \<^verbatim>\<open>SetRSSIMonitorCommand::cancel\<close> returns \<^verbatim>\<open>WIFI_SUCCESS\<close> each time,
  whatever the transport answers. A second call leaves the registrations and the two
  sockets as the first call left them; what it changes is the traffic and the log: it
  builds the stop request again and, when that succeeds, sends it again on the command
  socket, and it logs a line when building or sending fails.
\<close>

theorem rssi_cancel_twice:
  "fst (rssi_cancel K env1 c s) = WIFI_SUCCESS K
   \<and> fst (rssi_cancel K env2 c (snd (rssi_cancel K env1 c s))) = WIFI_SUCCESS K
   \<and> snd (rssi_cancel K env2 c (snd (rssi_cancel K env1 c s))) =
       (snd (rssi_cancel K env1 c s))
         \<lparr> hal_log := hal_log (snd (rssi_cancel K env1 c s)) @ rssi_cancel_lines K env2 c,
           cmd_sock_sent := cmd_sock_sent (snd (rssi_cancel K env1 c s))
                              @ rssi_cancel_requests K env2 c \<rparr>
   \<and> event_cb (snd (rssi_cancel K env2 c (snd (rssi_cancel K env1 c s))))
       = event_cb (snd (rssi_cancel K env1 c s))
   \<and> cmd_sock (snd (rssi_cancel K env2 c (snd (rssi_cancel K env1 c s))))
       = cmd_sock (snd (rssi_cancel K env1 c s))
   \<and> event_sock (snd (rssi_cancel K env2 c (snd (rssi_cancel K env1 c s))))
       = event_sock (snd (rssi_cancel K env1 c s))"
proof -
  have st: "snd (rssi_cancel K env2 c (snd (rssi_cancel K env1 c s))) =
       (snd (rssi_cancel K env1 c s))
         \<lparr> hal_log := hal_log (snd (rssi_cancel K env1 c s)) @ rssi_cancel_lines K env2 c,
           cmd_sock_sent := cmd_sock_sent (snd (rssi_cancel K env1 c s))
                              @ rssi_cancel_requests K env2 c \<rparr>"
    unfolding rssi_cancel_state by simp
  have ev: "event_cb (snd (rssi_cancel K env2 c (snd (rssi_cancel K env1 c s))))
       = event_cb (snd (rssi_cancel K env1 c s))"
    unfolding rssi_cancel_state by simp
  have cs: "cmd_sock (snd (rssi_cancel K env2 c (snd (rssi_cancel K env1 c s))))
       = cmd_sock (snd (rssi_cancel K env1 c s))"
    unfolding rssi_cancel_state by simp
  have es: "event_sock (snd (rssi_cancel K env2 c (snd (rssi_cancel K env1 c s))))
       = event_sock (snd (rssi_cancel K env1 c s))"
    unfolding rssi_cancel_state by simp
  from st ev cs es show ?thesis by (simp add: rssi_cancel_result)
qed

lemma sample_stop_request:
  "rssi_createRequest sample_consts (sample_env 0 None) sample_rssi_cmd 0 =
     (0, \<lparr> req_vendor_id = 0x001A11, req_subcmd = 20,
           req_attrs = [(1, U8 0), (2, U8 0), (3, U8 0)] \<rparr>)"
  by (simp add: rssi_createRequest_def sample_env_def sample_consts_def Let_def
      RSSI_MONITOR_ATTRIBUTE_MAX_RSSI_def RSSI_MONITOR_ATTRIBUTE_MIN_RSSI_def
      RSSI_MONITOR_ATTRIBUTE_START_def)

theorem rssi_cancel_twice_witness:
  "fst (rssi_cancel sample_consts (sample_env 0 None) sample_rssi_cmd
          (snd (rssi_cancel sample_consts (sample_env 0 None) sample_rssi_cmd sample_state))) = 0
   \<and> event_cb (snd (rssi_cancel sample_consts (sample_env 0 None) sample_rssi_cmd
          (snd (rssi_cancel sample_consts (sample_env 0 None) sample_rssi_cmd sample_state))))
       = [other_registration]
   \<and> length (cmd_sock_sent (snd (rssi_cancel sample_consts (sample_env 0 None) sample_rssi_cmd
          (snd (rssi_cancel sample_consts (sample_env 0 None) sample_rssi_cmd sample_state))))) = 2"
proof -
  have k: "WIFI_SUCCESS sample_consts = 0" by (simp add: sample_consts_def)
  have rq: "rssi_cancel_requests sample_consts (sample_env 0 None) sample_rssi_cmd
              = [\<lparr> req_vendor_id = 0x001A11, req_subcmd = 20,
                    req_attrs = [(1, U8 0), (2, U8 0), (3, U8 0)] \<rparr>]"
    by (simp add: rssi_cancel_requests_def sample_stop_request k)
  have e1: "event_cb (snd (rssi_cancel sample_consts (sample_env 0 None) sample_rssi_cmd sample_state))
              = [other_registration]"
    unfolding rssi_cancel_state
    by (simp add: sample_state_def sample_consts_def other_registration_def rssi_registration_def)
  have s1: "cmd_sock_sent (snd (rssi_cancel sample_consts (sample_env 0 None) sample_rssi_cmd sample_state))
              = [\<lparr> req_vendor_id = 0x001A11, req_subcmd = 20,
                    req_attrs = [(1, U8 0), (2, U8 0), (3, U8 0)] \<rparr>]"
    unfolding rssi_cancel_state by (simp add: rq sample_state_def)
  note inst = rssi_cancel_twice [of sample_consts "sample_env 0 None" sample_rssi_cmd sample_state
      "sample_env 0 None"]
  from inst have a: "fst (rssi_cancel sample_consts (sample_env 0 None) sample_rssi_cmd
          (snd (rssi_cancel sample_consts (sample_env 0 None) sample_rssi_cmd sample_state))) = 0"
    by (simp add: k)
  from inst have b: "event_cb (snd (rssi_cancel sample_consts (sample_env 0 None) sample_rssi_cmd
          (snd (rssi_cancel sample_consts (sample_env 0 None) sample_rssi_cmd sample_state))))
       = event_cb (snd (rssi_cancel sample_consts (sample_env 0 None) sample_rssi_cmd sample_state))"
    by blast
  from inst have c: "cmd_sock_sent (snd (rssi_cancel sample_consts (sample_env 0 None) sample_rssi_cmd
          (snd (rssi_cancel sample_consts (sample_env 0 None) sample_rssi_cmd sample_state))))
       = cmd_sock_sent (snd (rssi_cancel sample_consts (sample_env 0 None) sample_rssi_cmd sample_state))
           @ rssi_cancel_requests sample_consts (sample_env 0 None) sample_rssi_cmd"
    by (metis (no_types, lifting) hal_state.select_convs(15) hal_state.surjective
        hal_state.update_convs(15))
  from a b c e1 s1 rq show ?thesis by simp
qed

text \<open>
  C8 as stated fails: the second \<^verbatim>\<open>cancel\<close> has an effect that can be observed. After the
  first call one stop request has been sent on the command socket, after the second
  call two, so the state after the second call is not the state after the first.
\<close>

theorem second_cancel_sends_again:
  "cmd_sock_sent (snd (rssi_cancel sample_consts (sample_env 0 None) sample_rssi_cmd sample_state))
     = [\<lparr> req_vendor_id = 0x001A11, req_subcmd = 20,
           req_attrs = [(1, U8 0), (2, U8 0), (3, U8 0)] \<rparr>]
   \<and> cmd_sock_sent (snd (rssi_cancel sample_consts (sample_env 0 None) sample_rssi_cmd
          (snd (rssi_cancel sample_consts (sample_env 0 None) sample_rssi_cmd sample_state))))
     = [\<lparr> req_vendor_id = 0x001A11, req_subcmd = 20,
           req_attrs = [(1, U8 0), (2, U8 0), (3, U8 0)] \<rparr>,
        \<lparr> req_vendor_id = 0x001A11, req_subcmd = 20,
           req_attrs = [(1, U8 0), (2, U8 0), (3, U8 0)] \<rparr>]
   \<and> snd (rssi_cancel sample_consts (sample_env 0 None) sample_rssi_cmd
          (snd (rssi_cancel sample_consts (sample_env 0 None) sample_rssi_cmd sample_state)))
     \<noteq> snd (rssi_cancel sample_consts (sample_env 0 None) sample_rssi_cmd sample_state)"
proof -
  have k: "WIFI_SUCCESS sample_consts = 0" by (simp add: sample_consts_def)
  have rq: "rssi_cancel_requests sample_consts (sample_env 0 None) sample_rssi_cmd
              = [\<lparr> req_vendor_id = 0x001A11, req_subcmd = 20,
                    req_attrs = [(1, U8 0), (2, U8 0), (3, U8 0)] \<rparr>]"
    by (simp add: rssi_cancel_requests_def sample_stop_request k)
  have s1: "cmd_sock_sent (snd (rssi_cancel sample_consts (sample_env 0 None) sample_rssi_cmd sample_state))
              = [\<lparr> req_vendor_id = 0x001A11, req_subcmd = 20,
                    req_attrs = [(1, U8 0), (2, U8 0), (3, U8 0)] \<rparr>]"
    unfolding rssi_cancel_state by (simp add: rq sample_state_def)
  have s2: "cmd_sock_sent (snd (rssi_cancel sample_consts (sample_env 0 None) sample_rssi_cmd
          (snd (rssi_cancel sample_consts (sample_env 0 None) sample_rssi_cmd sample_state))))
     = [\<lparr> req_vendor_id = 0x001A11, req_subcmd = 20,
           req_attrs = [(1, U8 0), (2, U8 0), (3, U8 0)] \<rparr>,
        \<lparr> req_vendor_id = 0x001A11, req_subcmd = 20,
           req_attrs = [(1, U8 0), (2, U8 0), (3, U8 0)] \<rparr>]"
    unfolding rssi_cancel_state by (simp add: rq sample_state_def)
  have ne: "snd (rssi_cancel sample_consts (sample_env 0 None) sample_rssi_cmd
          (snd (rssi_cancel sample_consts (sample_env 0 None) sample_rssi_cmd sample_state)))
     \<noteq> snd (rssi_cancel sample_consts (sample_env 0 None) sample_rssi_cmd sample_state)"
  proof
    assume "snd (rssi_cancel sample_consts (sample_env 0 None) sample_rssi_cmd
          (snd (rssi_cancel sample_consts (sample_env 0 None) sample_rssi_cmd sample_state)))
     = snd (rssi_cancel sample_consts (sample_env 0 None) sample_rssi_cmd sample_state)"
    then have "cmd_sock_sent (snd (rssi_cancel sample_consts (sample_env 0 None) sample_rssi_cmd
          (snd (rssi_cancel sample_consts (sample_env 0 None) sample_rssi_cmd sample_state))))
     = cmd_sock_sent (snd (rssi_cancel sample_consts (sample_env 0 None) sample_rssi_cmd sample_state))"
      by simp
    then show False unfolding s1 s2 by simp
  qed
  from s1 s2 ne show ?thesis by blast
qed

end
